theory Spec2Isabelle
  imports Main "HOL-Library.Char_ord" "HOL-Library.List_Lexorder"
begin

section \<open>JavaScript values used by the services\<close>

text \<open>
  A JavaScript string is a sequence of UTF-16 code units; \<open>length\<close>, \<open>substring\<close> and
  \<open>+\<close> work on code units. A \<^typ>\<open>string\<close> here is that sequence, one \<^typ>\<open>char\<close> per code
  unit, for the code units below 256. The message of a thrown \<open>Error\<close> and the \<open>message\<close>
  field of a provider error are strings as well.
\<close>

type_synonym err = string

text \<open>\<open>Array.prototype.join\<close>.\<close>

fun join :: "string \<Rightarrow> string list \<Rightarrow> string" where
  "join sep [] = []"
| "join sep [x] = x"
| "join sep (x # y # ys) = x @ sep @ join sep (y # ys)"

text \<open>Truthiness of an optional string: \<open>undefined\<close>, \<open>null\<close> and \<open>''\<close> are falsy.\<close>

definition truthy :: "string option \<Rightarrow> bool" where
  "truthy v = (case v of None \<Rightarrow> False | Some s \<Rightarrow> s \<noteq> [])"

text \<open>\<open>v || d\<close> on an optional string.\<close>

definition or_else :: "string option \<Rightarrow> string \<Rightarrow> string" where
  "or_else v d = (case v of None \<Rightarrow> d | Some s \<Rightarrow> if s = [] then d else s)"

text \<open>\<open>s.substring(0, n)\<close> is \<^term>\<open>take n s\<close>.\<close>

section \<open>The relational store, the vector search and the model, as the chat service sees them\<close>

record chat_session =
  cs_id :: string
  cs_user_id :: string
  cs_title :: string
  cs_created_at :: nat
  cs_last_message_at :: nat

record chat_message =
  cm_user_id :: string
  cm_session_id :: string
  cm_user_message :: string
  cm_ai_response :: string
  cm_created_at :: nat

text \<open>A retrieved chunk: \<open>doc.metadata.title\<close> (possibly missing) and \<open>doc.pageContent\<close>.\<close>

record document =
  md_title :: "string option"
  pageContent :: string

text \<open>
  The world a service call runs in and changes: the two chat tables, the lines written by
  \<open>console.error\<close> (label and error message) and the prompts handed to the model.
\<close>

record world =
  chat_sessions :: "chat_session list"
  chat_messages :: "chat_message list"
  console :: "(string \<times> string) list"
  prompts :: "string list"

text \<open>Every remote call of the chat service; each can come back with a provider error.\<close>

datatype call =
  HistorySelect | MessageInsert | SessionTouch | SessionOwnerSelect
  | MessagesDelete | SessionDelete | TitleUpdate

text \<open>
  What the outside answers during one service call: the model's output for a prompt (or the
  message of the error it throws), the vector store's answer to a similarity search
  (query, \<open>k\<close>, category filter), the provider error a store call returns (if any), the
  clock, and the configured \<open>config.env.chatAi.similaritySearchResults\<close>. All clock reads
  of one service call return the same instant. A store call that returns an error has
  changed nothing.
\<close>

record providers =
  invoke :: "string \<Rightarrow> err + string"
  similaritySearch :: "string \<Rightarrow> nat \<Rightarrow> string option \<Rightarrow> err + document list"
  fault :: "call \<Rightarrow> err option"
  now :: nat
  similaritySearchResults :: nat

definition log_error :: "string \<Rightarrow> err \<Rightarrow> world \<Rightarrow> world" where
  "log_error label e w = w\<lparr>console := console w @ [(label, e)]\<rparr>"

text \<open>\<open>chain.invoke\<close>: the rendered prompt goes to the model, whose text is parsed as is.\<close>

definition model_call :: "providers \<Rightarrow> world \<Rightarrow> string \<Rightarrow> (err + string) \<times> world" where
  "model_call env w prompt = (invoke env prompt, w\<lparr>prompts := prompts w @ [prompt]\<rparr>)"

text \<open>
  \<open>.single()\<close>: the query must produce exactly one row, otherwise the call returns an
  error and no data.
\<close>

definition single :: "'a list \<Rightarrow> err + 'a" where
  "single rows = (case rows of [r] \<Rightarrow> Inr r | _ \<Rightarrow> Inl ''JSON object requested, multiple (or no) rows returned'')"

section \<open>chat.service.ts\<close>

definition no_history :: string where
  "no_history = ''No previous conversation history.''"

definition no_information :: string where
  "no_information = ''No specific information available on this topic.''"

definition history_entry :: "chat_message \<Rightarrow> string" where
  "history_entry msg = ''User: '' @ cm_user_message msg @ ''\<newline>AI: '' @ cm_ai_response msg"

text \<open>Rows come back ordered by \<open>created_at\<close>, ascending.\<close>

definition loadChatHistory :: "providers \<Rightarrow> world \<Rightarrow> string \<Rightarrow> string \<times> world" where
  "loadChatHistory env w sessionId =
     (case fault env HistorySelect of
        Some e \<Rightarrow> (no_history, log_error ''Error loading chat history:'' e w)
      | None \<Rightarrow>
          (let data = sort_key cm_created_at
                        (filter (\<lambda>m. cm_session_id m = sessionId) (chat_messages w))
           in if length data = 0 then (no_history, w)
              else (join ''\<newline>\<newline>'' (map history_entry data), w)))"

definition search_query_prompt :: "string \<Rightarrow> string \<Rightarrow> string" where
  "search_query_prompt history question =
     ''Based on the conversation history and the current question, generate a search query that would help find relevant information:\<newline>\<newline>History: ''
     @ history @ ''\<newline>\<newline>Question: '' @ question @ ''\<newline>\<newline>Search Query:''"

definition generateSearchQuery ::
  "providers \<Rightarrow> world \<Rightarrow> string \<Rightarrow> string \<Rightarrow> (err + string) \<times> world" where
  "generateSearchQuery env w history question =
     model_call env w (search_query_prompt history question)"

definition context_entry :: "document \<Rightarrow> string" where
  "context_entry doc =
     ''\<newline>Title: '' @ or_else (md_title doc) ''Untitled''
     @ ''\<newline>Content: '' @ pageContent doc @ ''\<newline>      ''"

text \<open>The \<open>context\<close> constant of \<open>processMessage\<close>, and what the chain puts in the \<open>{context}\<close> slot.\<close>

definition context_block :: "document list \<Rightarrow> string" where
  "context_block documents = join ''\<newline>\<newline>'' (map context_entry documents)"

definition context_slot :: "string \<Rightarrow> string" where
  "context_slot context = (if length context > 0 then context else no_information)"

definition chat_prompt :: "string \<Rightarrow> string \<Rightarrow> string \<Rightarrow> string" where
  \<open>chat_prompt history question context =
     ''\<newline>You are MindfulAI, a mental health companion. Your goal is to provide supportive, empathetic responses\<newline>based on the user's questions and the provided information sources. Always answer in a calm, supportive tone.\<newline>\<newline>Chat History: \<newline>''
     @ history @ ''\<newline>\<newline>User Question: '' @ question
     @ ''\<newline>\<newline>Relevant Information:\<newline>'' @ context
     @ ''\<newline>\<newline>Instructions:\<newline>- Answer based on the provided information when possible\<newline>- Be supportive and empathetic, focusing on mental wellbeing\<newline>- If you don't know or the information isn't in the context, be honest and helpful\<newline>- Do not mention that you're using specific documents or sources directly in your response\<newline>- Keep responses concise, clear, and conversational\<newline>\<newline>Response:\<newline>      ''\<close>

record source =
  src_title :: string
  src_content :: string

record chat_response =
  response :: string
  sources :: "source list option"

definition source_of :: "document \<Rightarrow> source" where
  "source_of doc =
     \<lparr>src_title = or_else (md_title doc) ''Untitled'',
      src_content = take 150 (pageContent doc) @ ''...''\<rparr>"

definition saveChatMessage ::
  "providers \<Rightarrow> world \<Rightarrow> string \<Rightarrow> string \<Rightarrow> string \<Rightarrow> string \<Rightarrow> (err + unit) \<times> world" where
  "saveChatMessage env w userId sessionId userMessage aiResponse =
     (case fault env MessageInsert of
        Some e \<Rightarrow>
          (Inl (''Failed to save chat message: '' @ e),
           log_error ''Error saving chat message:'' e w)
      | None \<Rightarrow>
          (let w1 = w\<lparr>chat_messages := chat_messages w @
                      [\<lparr>cm_user_id = userId, cm_session_id = sessionId,
                        cm_user_message = userMessage, cm_ai_response = aiResponse,
                        cm_created_at = now env\<rparr>]\<rparr>
           in case fault env SessionTouch of
                Some e \<Rightarrow>
                  (Inr (), log_error ''Error updating session last message time:'' e w1)
              | None \<Rightarrow>
                  (Inr (),
                   w1\<lparr>chat_sessions :=
                        map (\<lambda>s. if cs_id s = sessionId
                                  then s\<lparr>cs_last_message_at := now env\<rparr> else s)
                            (chat_sessions w1)\<rparr>)))"

text \<open>The body of the \<open>try\<close> block of \<open>processMessage\<close>; \<open>Inl\<close> is a thrown error.\<close>

definition processMessage_try ::
  "providers \<Rightarrow> world \<Rightarrow> string \<Rightarrow> string \<Rightarrow> string \<Rightarrow> string option
     \<Rightarrow> (err + chat_response) \<times> world" where
  "processMessage_try env w userId sessionId message category =
     (let (history, w1) = loadChatHistory env w sessionId
      in case generateSearchQuery env w1 history message of
        (Inl e, w2) \<Rightarrow> (Inl e, w2)
      | (Inr searchQuery, w2) \<Rightarrow>
          (case similaritySearch env searchQuery (similaritySearchResults env)
                  (if truthy category then category else None) of
             Inl e \<Rightarrow> (Inl e, w2)
           | Inr documents \<Rightarrow>
               (let context = context_block documents
                in case model_call env w2
                          (chat_prompt history message (context_slot context)) of
                     (Inl e, w3) \<Rightarrow> (Inl e, w3)
                   | (Inr resp, w3) \<Rightarrow>
                       (case saveChatMessage env w3 userId sessionId message resp of
                          (Inl e, w4) \<Rightarrow> (Inl e, w4)
                        | (Inr _, w4) \<Rightarrow>
                            (Inr \<lparr>response = resp,
                                  sources = (if length documents > 0
                                             then Some (map source_of documents)
                                             else None)\<rparr>, w4)))))"

text \<open>The \<open>catch\<close>: log, then throw \<open>Failed to process message: ...\<close>.\<close>

definition processMessage ::
  "providers \<Rightarrow> world \<Rightarrow> string \<Rightarrow> string \<Rightarrow> string \<Rightarrow> string option
     \<Rightarrow> (err + chat_response) \<times> world" where
  "processMessage env w userId sessionId message category =
     (case processMessage_try env w userId sessionId message category of
        (Inl e, w') \<Rightarrow>
          (Inl (''Failed to process message: '' @ e),
           log_error ''Error processing message:'' e w')
      | (Inr r, w') \<Rightarrow> (Inr r, w'))"

text \<open>
  The ownership query shared by \<open>deleteChatSession\<close>, \<open>generateChatTitle\<close> and
  \<open>updateChatTitle\<close>: \<open>select('id').eq('id', sessionId).eq('user_id', userId).single()\<close>.
\<close>

definition find_owned_session ::
  "providers \<Rightarrow> world \<Rightarrow> string \<Rightarrow> string \<Rightarrow> err + chat_session" where
  "find_owned_session env w sessionId userId =
     (case fault env SessionOwnerSelect of
        Some e \<Rightarrow> Inl e
      | None \<Rightarrow>
          single (filter (\<lambda>s. cs_id s = sessionId \<and> cs_user_id s = userId) (chat_sessions w)))"

text \<open>\<open>Inr False\<close> is \<open>return false\<close>; \<open>Inl\<close> is the error logged and thrown again by the \<open>catch\<close>.\<close>

definition deleteChatSession ::
  "providers \<Rightarrow> world \<Rightarrow> string \<Rightarrow> string \<Rightarrow> (err + bool) \<times> world" where
  "deleteChatSession env w userId sessionId =
     (case find_owned_session env w sessionId userId of
        Inl e \<Rightarrow> (Inr False, log_error ''Error finding session to delete:'' e w)
      | Inr _ \<Rightarrow>
          (case fault env MessagesDelete of
             Some e \<Rightarrow>
               (Inl (''Failed to delete session messages: '' @ e),
                log_error ''Error in deleteChatSession:'' (''Failed to delete session messages: '' @ e)
                  (log_error ''Error deleting session messages:'' e w))
           | None \<Rightarrow>
               (let w1 = w\<lparr>chat_messages :=
                             filter (\<lambda>m. cm_session_id m \<noteq> sessionId) (chat_messages w)\<rparr>
                in case fault env SessionDelete of
                     Some e \<Rightarrow>
                       (Inl (''Failed to delete session: '' @ e),
                        log_error ''Error in deleteChatSession:'' (''Failed to delete session: '' @ e)
                          (log_error ''Error deleting session:'' e w1))
                   | None \<Rightarrow>
                       (Inr True,
                        w1\<lparr>chat_sessions :=
                             filter (\<lambda>s. cs_id s \<noteq> sessionId) (chat_sessions w1)\<rparr>))))"

text \<open>
  \<open>String.prototype.trim\<close> strips white space and line terminators from both ends; below
  code unit 256 these are tab, line feed, vertical tab, form feed, carriage return, space
  and no-break space.
\<close>

definition is_space :: "char \<Rightarrow> bool" where
  "is_space c = (c \<in> set [CHR 0x09, CHR 0x0A, CHR 0x0B, CHR 0x0C, CHR 0x0D, CHR 0x20, CHR 0xA0])"

definition trim :: "string \<Rightarrow> string" where
  "trim s = rev (dropWhile is_space (rev (dropWhile is_space s)))"

definition title_prompt :: "string \<Rightarrow> string" where
  \<open>title_prompt message =
     ''\<newline>  Generate a concise, descriptive title (4-6 words max) for a chat conversation that starts with this message:\<newline>  "''
     @ message
     @ ''"\<newline>  \<newline>  The title should be descriptive of the content or intent of the message. \<newline>  Do not use quotes in the title. Just return the title text directly.\<newline>  \<newline>  Title:\<newline>      ''\<close>

definition set_title :: "string \<Rightarrow> string \<Rightarrow> world \<Rightarrow> world" where
  "set_title sessionId title w =
     w\<lparr>chat_sessions :=
         map (\<lambda>s. if cs_id s = sessionId then s\<lparr>cs_title := title\<rparr> else s) (chat_sessions w)\<rparr>"

definition generateChatTitle ::
  "providers \<Rightarrow> world \<Rightarrow> string \<Rightarrow> string \<Rightarrow> string \<Rightarrow> string \<times> world" where
  "generateChatTitle env w userId sessionId message =
     (case find_owned_session env w sessionId userId of
        Inl e \<Rightarrow> (''New Conversation'', log_error ''Error finding session:'' e w)
      | Inr _ \<Rightarrow>
          (case model_call env w (title_prompt (take 200 message)) of
             (Inl e, w1) \<Rightarrow> (''New Conversation'', log_error ''Error generating chat title:'' e w1)
           | (Inr out, w1) \<Rightarrow>
               (let title0 = trim out;
                    title = (if length title0 > 50 then take 47 title0 @ ''...'' else title0)
                in case fault env TitleUpdate of
                     Some e \<Rightarrow> (title, log_error ''Error updating session title:'' e w1)
                   | None \<Rightarrow> (title, set_title sessionId title w1))))"

definition updateChatTitle ::
  "providers \<Rightarrow> world \<Rightarrow> string \<Rightarrow> string \<Rightarrow> string \<Rightarrow> bool \<times> world" where
  "updateChatTitle env w userId sessionId title =
     (case find_owned_session env w sessionId userId of
        Inl e \<Rightarrow> (False, log_error ''Error finding session:'' e w)
      | Inr _ \<Rightarrow>
          (case fault env TitleUpdate of
             Some e \<Rightarrow> (False, log_error ''Error updating session title:'' e w)
           | None \<Rightarrow> (True, set_title sessionId title w)))"

section \<open>document.service.ts\<close>

text \<open>
  A row of \<open>document_metadata\<close>; the \<open>category\<close> column is nullable. A page or chunk is its
  text and its metadata object, a row of the vector table likewise (the embedding plays no
  role here).
\<close>

record document_metadata =
  dm_id :: string
  dm_title :: string
  dm_description :: string
  dm_category :: "string option"
  dm_file_name :: string
  dm_chunk_count :: nat
  dm_file_type :: string

record page =
  pg_content :: string
  pg_metadata :: "string \<rightharpoonup> string"

record library =
  metadata_rows :: "document_metadata list"
  vector_rows :: "page list"
  doc_console :: "(string \<times> string) list"

datatype doc_call =
  TempWrite | TempUnlink | MetadataInsert | AddDocuments
  | VectorDelete | MetadataDelete | CategorySelect

datatype loader = PDFLoader | DocxLoader | TextLoader

record upload =
  originalname :: string
  buffer :: string

text \<open>
  The outside of the document service: \<open>path.extname(name).toLowerCase()\<close>, the loaders
  (they read the temporary copy of the uploaded file) and the text splitter of the
  libraries (each can throw), the error a store or file-system call
  comes back with (if any), the id the store gives a new metadata row, and the clock as an
  ISO string.
\<close>

record doc_providers =
  extname_lower :: "string \<Rightarrow> string"
  load :: "loader \<Rightarrow> upload \<Rightarrow> err + page list"
  splitDocuments :: "page list \<Rightarrow> err + page list"
  doc_fault :: "doc_call \<Rightarrow> err option"
  new_id :: string
  now_iso :: string

record metadata_input =
  in_title :: string
  in_description :: "string option"
  in_category :: "string option"

record process_result =
  pr_success :: bool
  pr_message :: string
  pr_documentId :: "string option"

record delete_result =
  dr_success :: bool
  dr_message :: string

definition doc_log :: "string \<Rightarrow> err \<Rightarrow> library \<Rightarrow> library" where
  "doc_log label e lib = lib\<lparr>doc_console := doc_console lib @ [(label, e)]\<rparr>"

text \<open>A number inside a template literal: its decimal digits.\<close>

function show_nat :: "nat \<Rightarrow> string" where
  "show_nat n =
     (if n < 10 then [char_of (48 + n)]
      else show_nat (n div 10) @ [char_of (48 + n mod 10)])"
  by pat_completeness auto
termination
  by (relation "measure id") auto

definition pick_loader :: "string \<Rightarrow> loader option" where
  "pick_loader fileExtension =
     (if fileExtension = ''.pdf'' then Some PDFLoader
      else if fileExtension = ''.docx'' then Some DocxLoader
      else if fileExtension \<in> set [''.txt'', ''.md'', ''.html''] then Some TextLoader
      else None)"

definition add_metadata :: "doc_providers \<Rightarrow> upload \<Rightarrow> metadata_input \<Rightarrow> page \<Rightarrow> page" where
  "add_metadata env file metadata doc =
     doc\<lparr>pg_metadata :=
           (pg_metadata doc)
             (''title'' \<mapsto> in_title metadata,
              ''description'' \<mapsto> or_else (in_description metadata) [],
              ''category'' \<mapsto> or_else (in_category metadata) ''general'',
              ''uploadedAt'' \<mapsto> now_iso env,
              ''source'' \<mapsto> originalname file)\<rparr>"

text \<open>\<open>fileExtension.replace('.', '')\<close> removes the first dot.\<close>

fun drop_first_dot :: "string \<Rightarrow> string" where
  "drop_first_dot [] = []"
| "drop_first_dot (c # cs) = (if c = CHR ''.'' then cs else c # drop_first_dot cs)"

text \<open>
  The body of the \<open>try\<close> block of \<open>processDocument\<close>; \<open>Inl\<close> is a thrown error. The
  temporary file itself is not kept in the state, only the two file-system calls that can
  throw.
\<close>

definition processDocument_try ::
  "doc_providers \<Rightarrow> library \<Rightarrow> upload \<Rightarrow> metadata_input \<Rightarrow> (err + process_result) \<times> library" where
  "processDocument_try env lib file metadata =
     (case doc_fault env TempWrite of
        Some e \<Rightarrow> (Inl e, lib)
      | None \<Rightarrow>
      (let fileExtension = extname_lower env (originalname file)
       in case pick_loader fileExtension of
            None \<Rightarrow>
              (case doc_fault env TempUnlink of
                 Some e \<Rightarrow> (Inl e, lib)
               | None \<Rightarrow>
                   (Inr \<lparr>pr_success = False,
                         pr_message = ''Unsupported file format: '' @ fileExtension,
                         pr_documentId = None\<rparr>, lib))
          | Some ld \<Rightarrow>
              (case load env ld file of
                 Inl e \<Rightarrow> (Inl e, lib)
               | Inr loaded \<Rightarrow>
                   (let docs = map (add_metadata env file metadata) loaded
                    in case splitDocuments env docs of
                         Inl e \<Rightarrow> (Inl e, lib)
                       | Inr splitDocs \<Rightarrow>
                           (case doc_fault env MetadataInsert of
                              Some e \<Rightarrow> (Inl (''Failed to store document metadata: '' @ e), lib)
                            | None \<Rightarrow>
                                (let documentId = new_id env;
                                     lib1 = lib\<lparr>metadata_rows := metadata_rows lib @
                                              [\<lparr>dm_id = documentId,
                                                dm_title = in_title metadata,
                                                dm_description = or_else (in_description metadata) [],
                                                dm_category = Some (or_else (in_category metadata) ''general''),
                                                dm_file_name = originalname file,
                                                dm_chunk_count = length splitDocs,
                                                dm_file_type = drop_first_dot fileExtension\<rparr>]\<rparr>;
                                     docsWithId =
                                       map (\<lambda>doc. doc\<lparr>pg_metadata :=
                                                    (pg_metadata doc)(''documentId'' \<mapsto> documentId)\<rparr>)
                                           splitDocs
                                 in case doc_fault env AddDocuments of
                                      Some e \<Rightarrow> (Inl e, lib1)
                                    | None \<Rightarrow>
                                        (let lib2 = lib1\<lparr>vector_rows := vector_rows lib1 @ docsWithId\<rparr>
                                         in case doc_fault env TempUnlink of
                                              Some e \<Rightarrow> (Inl e, lib2)
                                            | None \<Rightarrow>
                                                (Inr \<lparr>pr_success = True,
                                                      pr_message = ''Successfully processed ''
                                                        @ originalname file @ '' into ''
                                                        @ show_nat (length splitDocs) @ '' chunks'',
                                                      pr_documentId = Some documentId\<rparr>,
                                                 lib2))))))))"

definition processDocument ::
  "doc_providers \<Rightarrow> library \<Rightarrow> upload \<Rightarrow> metadata_input \<Rightarrow> process_result \<times> library" where
  "processDocument env lib file metadata =
     (case processDocument_try env lib file metadata of
        (Inl e, lib') \<Rightarrow>
          (\<lparr>pr_success = False, pr_message = ''Error processing document: '' @ e,
            pr_documentId = None\<rparr>,
           doc_log ''Error processing document:'' e lib')
      | (Inr r, lib') \<Rightarrow> (r, lib'))"

text \<open>
  \<open>deleteDocument\<close>: the vector rows whose \<open>metadata->>documentId\<close> equals the id go first,
  then the metadata row; the first error is thrown, caught and reported.
\<close>

definition deleteDocument :: "doc_providers \<Rightarrow> library \<Rightarrow> string \<Rightarrow> delete_result \<times> library" where
  "deleteDocument env lib documentId =
     (case doc_fault env VectorDelete of
        Some e \<Rightarrow>
          (\<lparr>dr_success = False,
            dr_message = ''Error deleting document: '' @ (''Failed to delete document chunks: '' @ e)\<rparr>,
           doc_log ''Error deleting document:'' (''Failed to delete document chunks: '' @ e) lib)
      | None \<Rightarrow>
          (let lib1 = lib\<lparr>vector_rows :=
                          filter (\<lambda>r. pg_metadata r ''documentId'' \<noteq> Some documentId)
                                 (vector_rows lib)\<rparr>
           in case doc_fault env MetadataDelete of
                Some e \<Rightarrow>
                  (\<lparr>dr_success = False,
                    dr_message = ''Error deleting document: '' @ (''Failed to delete document metadata: '' @ e)\<rparr>,
                   doc_log ''Error deleting document:'' (''Failed to delete document metadata: '' @ e) lib1)
              | None \<Rightarrow>
                  (\<lparr>dr_success = True, dr_message = ''Document successfully deleted''\<rparr>,
                   lib1\<lparr>metadata_rows :=
                          filter (\<lambda>d. dm_id d \<noteq> documentId) (metadata_rows lib1)\<rparr>)))"

text \<open>
  \<open>[...new Set(values)]\<close>: the values in the order of their first occurrence, each once.
\<close>

fun new_Set :: "'a list \<Rightarrow> 'a list \<Rightarrow> 'a list" where
  "new_Set seen [] = seen"
| "new_Set seen (x # xs) = new_Set (if x \<in> set seen then seen else seen @ [x]) xs"

text \<open>
  \<open>.order('category')\<close>: ascending, rows with a null category last. The store's collation is
  taken to be the order of the character codes.
\<close>

definition order_by_category :: "document_metadata list \<Rightarrow> document_metadata list" where
  "order_by_category rows =
     sort_key (\<lambda>d. the (dm_category d)) (filter (\<lambda>d. dm_category d \<noteq> None) rows)
     @ filter (\<lambda>d. dm_category d = None) rows"

definition getCategories :: "doc_providers \<Rightarrow> library \<Rightarrow> err + string list" where
  "getCategories env lib =
     (case doc_fault env CategorySelect of
        Some e \<Rightarrow> Inl (''Failed to fetch categories: '' @ e)
      | None \<Rightarrow>
          (let data = order_by_category (metadata_rows lib)
           in Inr (map the (filter truthy (new_Set [] (map dm_category data))))))"

section \<open>auth.middleware.ts, admin.middleware.ts and the document upload route\<close>

text \<open>A JSON value, as far as the services look at one.\<close>

datatype json = JNull | JBool bool | JNum int | JString string

text \<open>
  The user object of the identity provider: its id and \<open>user_metadata?.is_admin\<close>
  (\<open>JNull\<close> when the claim is absent). A row of the \<open>users\<close> table: its id and role.
\<close>

record auth_user =
  au_id :: string
  au_is_admin :: json

record user_row =
  ur_id :: string
  ur_role :: "string option"

record http_response =
  res_code :: nat
  res_status :: bool
  res_msg :: string

text \<open>
  The outside of the middleware: \<open>supabase.auth.getUser(token)\<close> returns an error, or data
  with or without a user; the \<open>users\<close> table; the error the role query comes back with
  (if any). Both calls return their errors; the \<open>catch\<close> of a middleware, which answers 500
  when a call throws, is never entered.
\<close>

record gate_providers =
  getUser :: "string \<Rightarrow> err + auth_user option"
  users :: "user_row list"
  role_fault :: "err option"

text \<open>\<open>authHeader.startsWith('Bearer ')\<close> and \<open>authHeader.split(' ')[1]\<close> under it.\<close>

definition starts_with_Bearer :: "string \<Rightarrow> bool" where
  "starts_with_Bearer h = (take 7 h = ''Bearer '')"

definition bearer_token :: "string \<Rightarrow> string" where
  "bearer_token h = takeWhile (\<lambda>c. c \<noteq> CHR '' '') (drop 7 h)"

text \<open>
  A middleware either sends a response (\<open>Inl\<close>) or calls \<open>next()\<close> (\<open>Inr\<close>);
  \<open>requireAuth\<close> calls it with \<open>req.user\<close> set.
\<close>

definition requireAuth :: "gate_providers \<Rightarrow> string option \<Rightarrow> http_response + auth_user" where
  "requireAuth env authorization =
     (case authorization of
        None \<Rightarrow> Inl \<lparr>res_code = 401, res_status = False,
                     res_msg = ''Authentication required. Bearer token missing.''\<rparr>
      | Some authHeader \<Rightarrow>
          if authHeader = [] \<or> \<not> starts_with_Bearer authHeader
          then Inl \<lparr>res_code = 401, res_status = False,
                    res_msg = ''Authentication required. Bearer token missing.''\<rparr>
          else if bearer_token authHeader = []
          then Inl \<lparr>res_code = 401, res_status = False,
                    res_msg = ''Authentication required. Token is empty.''\<rparr>
          else (case getUser env (bearer_token authHeader) of
                  Inl e \<Rightarrow> Inl \<lparr>res_code = 401, res_status = False,
                               res_msg = ''Invalid or expired token''\<rparr>
                | Inr None \<Rightarrow> Inl \<lparr>res_code = 401, res_status = False,
                                  res_msg = ''User not found''\<rparr>
                | Inr (Some user) \<Rightarrow> Inr user))"

text \<open>
  \<open>AuthMiddleware.requireAdmin\<close> looks at the claim only. Of the routes, \<open>GET /auth/users\<close>
  alone mounts it.
\<close>

definition AuthMiddleware_requireAdmin :: "auth_user option \<Rightarrow> http_response + unit" where
  "AuthMiddleware_requireAdmin req_user =
     (case req_user of
        None \<Rightarrow> Inl \<lparr>res_code = 401, res_status = False, res_msg = ''Authentication required''\<rparr>
      | Some user \<Rightarrow>
          if au_is_admin user = JBool True then Inr ()
          else Inl \<lparr>res_code = 403, res_status = False, res_msg = ''Admin access required''\<rparr>)"

text \<open>
  \<open>AdminMiddleware.requireAdmin\<close>: the claim first, then the \<open>users\<close> table. The document
  routes (upload, list, delete, by category) and the admin routes of the chat router
  (topics, analytics) mount it, each after \<open>requireAuth\<close>.
\<close>

definition requireAdmin :: "gate_providers \<Rightarrow> auth_user option \<Rightarrow> http_response + unit" where
  "requireAdmin env req_user =
     (case req_user of
        None \<Rightarrow> Inl \<lparr>res_code = 401, res_status = False, res_msg = ''Authentication required''\<rparr>
      | Some user \<Rightarrow>
          if au_is_admin user = JBool True then Inr ()
          else (case (case role_fault env of
                        Some e \<Rightarrow> Inl e
                      | None \<Rightarrow> single (filter (\<lambda>r. ur_id r = au_id user) (users env))) of
                  Inl e \<Rightarrow> Inl \<lparr>res_code = 500, res_status = False,
                               res_msg = ''Error verifying user permissions''\<rparr>
                | Inr data \<Rightarrow>
                    if ur_role data = Some ''admin'' then Inr ()
                    else Inl \<lparr>res_code = 403, res_status = False,
                              res_msg = ''Admin privileges required''\<rparr>))"

text \<open>
  \<open>router.post('/upload', authMiddleware.requireAuth, adminMiddleware.requireAdmin, handler)\<close>:
  \<open>Inr\<close> is the user with whom the upload handler is reached.
\<close>

definition upload_route :: "gate_providers \<Rightarrow> string option \<Rightarrow> http_response + auth_user" where
  "upload_route env authorization =
     (case requireAuth env authorization of
        Inl res \<Rightarrow> Inl res
      | Inr user \<Rightarrow>
          (case requireAdmin env (Some user) of
             Inl res \<Rightarrow> Inl res
           | Inr _ \<Rightarrow> Inr user))"

text \<open>
  \<open>router.get('/users', authMiddleware.requireAuth, authMiddleware.requireAdmin, handler)\<close>.
\<close>

definition users_route :: "gate_providers \<Rightarrow> string option \<Rightarrow> http_response + auth_user" where
  "users_route env authorization =
     (case requireAuth env authorization of
        Inl res \<Rightarrow> Inl res
      | Inr user \<Rightarrow>
          (case AuthMiddleware_requireAdmin (Some user) of
             Inl res \<Rightarrow> Inl res
           | Inr _ \<Rightarrow> Inr user))"

section \<open>auth.service.ts: resendOtp\<close>








section \<open>user.service.ts: updateUserProfile\<close>

text \<open>
  A row of \<open>profiles\<close> maps column names to values; the table maps the primary key \<open>id\<close> to
  its row. \<open>profileData\<close> is \<open>None\<close> when it is missing (\<open>undefined\<close> or \<open>null\<close>), otherwise
  an object: its keys in order, each with its value. The \<open>uuid\<close> package's \<open>validate\<close> is a
  parameter. The store returns its errors, so the \<open>catch\<close> of the method is never entered.
\<close>

type_synonym row = "string \<rightharpoonup> json"

record profile_providers =
  isUuid :: "string \<Rightarrow> bool"
  update_fault :: "err option"
  stamp :: string

record profile_result =
  p_status :: bool
  p_msg :: string
  p_statusCode :: "nat option"
  p_profile :: "row option"

definition allowedFields :: "string list" where
  "allowedFields = [''full_name'', ''avatar_url'', ''website'']"

text \<open>
  \<open>Object.keys(profileData).filter(...).reduce(...)\<close>, then \<open>filteredData.updated_at = ...\<close>.
\<close>

definition filteredData :: "profile_providers \<Rightarrow> (string \<times> json) list \<Rightarrow> row" where
  "filteredData env profileData =
     (fold (\<lambda>key obj. obj(key := map_of profileData key))
           (filter (\<lambda>key. key \<in> set allowedFields) (map fst profileData))
           Map.empty)
     (''updated_at'' \<mapsto> JString (stamp env))"

text \<open>
  \<open>.update(filteredData).eq('id', userId).select().single()\<close>: the columns named in
  \<open>filteredData\<close> are overwritten in the row whose id is \<open>userId\<close>; with no such row nothing is
  updated and \<open>.single()\<close> returns an error.
\<close>

definition updateUserProfile ::
  "profile_providers \<Rightarrow> (string \<rightharpoonup> row) \<Rightarrow> string \<Rightarrow> (string \<times> json) list option
     \<Rightarrow> profile_result \<times> (string \<rightharpoonup> row)" where
  "updateUserProfile env profiles userId profileData =
     (if userId = [] \<or> \<not> isUuid env userId
      then (\<lparr>p_status = False, p_msg = ''Invalid or missing user ID'',
             p_statusCode = Some 400, p_profile = None\<rparr>, profiles)
      else case profileData of
             None \<Rightarrow>
               (\<lparr>p_status = False, p_msg = ''No data provided for update'',
                 p_statusCode = Some 400, p_profile = None\<rparr>, profiles)
           | Some pd \<Rightarrow>
               if length (map fst pd) = 0
               then (\<lparr>p_status = False, p_msg = ''No data provided for update'',
                      p_statusCode = Some 400, p_profile = None\<rparr>, profiles)
               else (case update_fault env of
                       Some e \<Rightarrow>
                         (\<lparr>p_status = False, p_msg = ''Failed to update profile'',
                           p_statusCode = Some 400, p_profile = None\<rparr>, profiles)
                     | None \<Rightarrow>
                         (case profiles userId of
                            None \<Rightarrow>
                              (\<lparr>p_status = False, p_msg = ''Failed to update profile'',
                                p_statusCode = Some 400, p_profile = None\<rparr>, profiles)
                          | Some old \<Rightarrow>
                              (let data = old ++ filteredData env pd
                               in (\<lparr>p_status = True, p_msg = ''Profile updated successfully'',
                                     p_statusCode = None, p_profile = Some data\<rparr>,
                                   profiles(userId \<mapsto> data))))))"

section \<open>Example worlds\<close>

definition quiet :: providers where
  "quiet = \<lparr>invoke = (\<lambda>p. Inr ''Take a slow breath.''),
            similaritySearch = (\<lambda>q k c. Inr []),
            fault = (\<lambda>c. None),
            now = 1000,
            similaritySearchResults = 5\<rparr>"

definition history_down :: providers where
  "history_down = quiet\<lparr>fault := (\<lambda>c. if c = HistorySelect then Some ''connection refused'' else None)\<rparr>"

definition touch_down :: providers where
  "touch_down = quiet\<lparr>fault := (\<lambda>c. if c = SessionTouch then Some ''statement timeout'' else None)\<rparr>"

definition rewrite_down :: providers where
  "rewrite_down = quiet\<lparr>invoke := (\<lambda>p. Inl ''model overloaded'')\<rparr>"

definition search_down :: providers where
  "search_down = quiet\<lparr>similaritySearch := (\<lambda>q k c. Inl ''rpc failed'')\<rparr>"

definition answer_down :: providers where
  "answer_down = quiet\<lparr>invoke := (\<lambda>p. if take 5 p = ''Based'' then Inr ''anxiety'' else Inl ''quota exceeded'')\<rparr>"

definition wordy :: providers where
  "wordy = quiet\<lparr>invoke := (\<lambda>p. Inr ''  Coping Strategies For Persistent Workplace Anxiety And Insomnia\<newline>'')\<rparr>"

definition alice_world :: world where
  "alice_world =
     \<lparr>chat_sessions = [\<lparr>cs_id = ''s1'', cs_user_id = ''alice'', cs_title = ''Sleep'',
                        cs_created_at = 10, cs_last_message_at = 10\<rparr>],
      chat_messages = [],
      console = [],
      prompts = []\<rparr>"

definition desk :: doc_providers where
  "desk = \<lparr>extname_lower = (\<lambda>n. ''.pdf''),
           load = (\<lambda>l f. Inr [\<lparr>pg_content = buffer f, pg_metadata = Map.empty\<rparr>]),
           splitDocuments = (\<lambda>ds. Inr ds),
           doc_fault = (\<lambda>c. None),
           new_id = ''d6'',
           now_iso = ''2025-01-01T00:00:00.000Z''\<rparr>"

definition metadata_stuck :: doc_providers where
  "metadata_stuck = desk\<lparr>doc_fault := (\<lambda>c. if c = MetadataDelete then Some ''deadlock detected'' else None)\<rparr>"

definition shelf :: library where
  "shelf =
     \<lparr>metadata_rows =
        [\<lparr>dm_id = ''d1'', dm_title = ''Rest'', dm_description = [], dm_category = Some ''sleep'',
          dm_file_name = ''rest.pdf'', dm_chunk_count = 1, dm_file_type = ''pdf''\<rparr>,
         \<lparr>dm_id = ''d2'', dm_title = ''Untagged'', dm_description = [], dm_category = None,
          dm_file_name = ''u.txt'', dm_chunk_count = 0, dm_file_type = ''txt''\<rparr>,
         \<lparr>dm_id = ''d3'', dm_title = ''Blank'', dm_description = [], dm_category = Some [],
          dm_file_name = ''b.txt'', dm_chunk_count = 0, dm_file_type = ''txt''\<rparr>,
         \<lparr>dm_id = ''d4'', dm_title = ''Worry'', dm_description = [], dm_category = Some ''anxiety'',
          dm_file_name = ''w.md'', dm_chunk_count = 1, dm_file_type = ''md''\<rparr>],
      vector_rows =
        [\<lparr>pg_content = ''Sleep well.'', pg_metadata = [''documentId'' \<mapsto> ''d1'']\<rparr>,
         \<lparr>pg_content = ''Breathe.'', pg_metadata = [''documentId'' \<mapsto> ''d4'']\<rparr>],
      doc_console = []\<rparr>"

definition sleep_guide :: upload where
  "sleep_guide = \<lparr>originalname = ''guide.pdf'', buffer = ''Keep regular hours.''\<rparr>"

definition sleep_guide_meta :: metadata_input where
  "sleep_guide_meta = \<lparr>in_title = ''Sleep Guide'', in_description = None, in_category = Some ''sleep''\<rparr>"

definition front_door :: gate_providers where
  "front_door =
     \<lparr>getUser = (\<lambda>t. if t = ''tok-root'' then Inr (Some \<lparr>au_id = ''u1'', au_is_admin = JBool True\<rparr>)
                    else if t = ''tok-dave'' then Inr (Some \<lparr>au_id = ''u4'', au_is_admin = JBool False\<rparr>)
                    else Inl ''invalid JWT''),
      users = [\<lparr>ur_id = ''u1'', ur_role = Some ''admin''\<rparr>,
               \<lparr>ur_id = ''u4'', ur_role = Some ''user''\<rparr>],
      role_fault = None\<rparr>"

definition store_down :: gate_providers where
  "store_down = front_door\<lparr>role_fault := Some ''connection refused''\<rparr>"







definition registry :: profile_providers where
  "registry = \<lparr>isUuid = (\<lambda>s. length s = 36), update_fault = None,
               stamp = ''2025-03-01T09:00:00.000Z''\<rparr>"

definition ann_id :: string where
  "ann_id = ''7b1e2c9a-4f6d-4c3b-9a2e-1d5f8e0c6b47''"

definition people :: "string \<rightharpoonup> row" where
  "people =
     [ann_id \<mapsto> [''id'' \<mapsto> JString ann_id, ''full_name'' \<mapsto> JString ''Ann'',
                 ''role'' \<mapsto> JString ''user'', ''is_admin'' \<mapsto> JBool False,
                 ''updated_at'' \<mapsto> JString ''2025-01-01T00:00:00.000Z'']]"

definition ann_edit :: "(string \<times> json) list" where
  "ann_edit = [(''full_name'', JString ''Ann Lee''), (''role'', JString ''admin''),
               (''is_admin'', JBool True), (''id'', JString ''someone-else'')]"

section \<open>Properties of the chat service\<close>

lemmas chat_defs = processMessage_def processMessage_try_def loadChatHistory_def
  generateSearchQuery_def model_call_def saveChatMessage_def truthy_def log_error_def
  context_block_def context_slot_def no_information_def no_history_def



lemma prompts_log_error [simp]: "prompts (log_error l e w) = prompts w"
  by (simp add: log_error_def)


lemma tables_loadChatHistory:
  "chat_messages (snd (loadChatHistory env w sid)) = chat_messages w \<and>
   chat_sessions (snd (loadChatHistory env w sid)) = chat_sessions w"
  by (simp add: loadChatHistory_def log_error_def Let_def split: option.splits)


lemma pm_rewrite_fails:
  assumes "loadChatHistory env w sid = (h, w1)"
    and "invoke env (search_query_prompt h msg) = Inl e"
  shows "processMessage env w u sid msg cat =
     (Inl (''Failed to process message: '' @ e),
      log_error ''Error processing message:'' e (w1\<lparr>prompts := prompts w1 @ [search_query_prompt h msg]\<rparr>))"
  using assms
  by (simp add: processMessage_def processMessage_try_def generateSearchQuery_def model_call_def)

lemma pm_search_fails:
  assumes "loadChatHistory env w sid = (h, w1)"
    and "invoke env (search_query_prompt h msg) = Inr q"
    and "similaritySearch env q (similaritySearchResults env) (if truthy cat then cat else None) = Inl e"
  shows "processMessage env w u sid msg cat =
     (Inl (''Failed to process message: '' @ e),
      log_error ''Error processing message:'' e (w1\<lparr>prompts := prompts w1 @ [search_query_prompt h msg]\<rparr>))"
  using assms
  by (simp add: processMessage_def processMessage_try_def generateSearchQuery_def model_call_def)

lemma pm_model_fails:
  assumes "loadChatHistory env w sid = (h, w1)"
    and "invoke env (search_query_prompt h msg) = Inr q"
    and "similaritySearch env q (similaritySearchResults env) (if truthy cat then cat else None) = Inr docs"
    and "invoke env (chat_prompt h msg (context_slot (context_block docs))) = Inl e"
  shows "processMessage env w u sid msg cat =
     (Inl (''Failed to process message: '' @ e),
      log_error ''Error processing message:'' e
        (w1\<lparr>prompts := prompts w1 @ [search_query_prompt h msg,
               chat_prompt h msg (context_slot (context_block docs))]\<rparr>))"
  using assms
  by (simp add: processMessage_def processMessage_try_def generateSearchQuery_def model_call_def Let_def)

lemma pm_answered:
  assumes "loadChatHistory env w sid = (h, w1)"
    and "invoke env (search_query_prompt h msg) = Inr q"
    and "similaritySearch env q (similaritySearchResults env) (if truthy cat then cat else None) = Inr docs"
    and "invoke env (chat_prompt h msg (context_slot (context_block docs))) = Inr resp"
  shows "processMessage env w u sid msg cat =
     (case saveChatMessage env
             (w1\<lparr>prompts := prompts w1 @ [search_query_prompt h msg,
                    chat_prompt h msg (context_slot (context_block docs))]\<rparr>)
             u sid msg resp of
        (Inl e, w4) \<Rightarrow> (Inl (''Failed to process message: '' @ e), log_error ''Error processing message:'' e w4)
      | (Inr x, w4) \<Rightarrow> (Inr \<lparr>response = resp, sources = (if length docs > 0 then Some (map source_of docs) else None)\<rparr>, w4))"
  using assms
  by (simp add: processMessage_def processMessage_try_def generateSearchQuery_def model_call_def Let_def
      split: prod.splits sum.splits)







text \<open>
  C3, as stated, fails at step 1: with the history query returning an error and every other
  call succeeding, \<open>processMessage\<close> does not abort but returns the generated response.
\<close>

theorem C3_counterexample:
  "fault history_down HistorySelect = Some ''connection refused'' \<and>
   fst (processMessage history_down alice_world ''alice'' ''s1'' ''hello'' None) =
     Inr \<lparr>response = ''Take a slow breath.'', sources = None\<rparr>"
  by (simp add: history_down_def quiet_def alice_world_def chat_defs)

text \<open>
  C1. \<open>processMessage\<close> persists through \<open>saveChatMessage\<close> without looking at the owner of
  the session: called by \<open>mallory\<close> on the session \<open>s1\<close> of \<open>alice\<close>, it inserts a message
  row for \<open>s1\<close> and updates the \<open>last_message_at\<close> of \<open>s1\<close>.
\<close>

theorem C1_processMessage_writes_foreign_session:
  "map cs_user_id (filter (\<lambda>s. cs_id s = ''s1'') (chat_sessions alice_world)) = [''alice''] \<and>
   fst (processMessage quiet alice_world ''mallory'' ''s1'' ''hello'' None) =
     Inr \<lparr>response = ''Take a slow breath.'', sources = None\<rparr> \<and>
   chat_messages (snd (processMessage quiet alice_world ''mallory'' ''s1'' ''hello'' None)) =
     [\<lparr>cm_user_id = ''mallory'', cm_session_id = ''s1'', cm_user_message = ''hello'',
       cm_ai_response = ''Take a slow breath.'', cm_created_at = 1000\<rparr>] \<and>
   chat_sessions (snd (processMessage quiet alice_world ''mallory'' ''s1'' ''hello'' None)) =
     [\<lparr>cs_id = ''s1'', cs_user_id = ''alice'', cs_title = ''Sleep'',
       cs_created_at = 10, cs_last_message_at = 1000\<rparr>]"
  by (simp add: quiet_def alice_world_def chat_defs)

lemma tables_log_error [simp]:
  "chat_messages (log_error l e w) = chat_messages w"
  "chat_sessions (log_error l e w) = chat_sessions w"
  by (simp_all add: log_error_def)

text \<open>
  C3, amended. With \<open>h\<close> the transcript that step 1 produced: a history query that returns
  an error does not abort, it is logged and \<open>h\<close> is the no-history text; a failure of the
  query rewrite, of the similarity search or of the model invocation aborts with the error
  \<open>Failed to process message: <cause>\<close> and leaves both chat tables as they were; when the
  message row is inserted and only the \<open>last_message_at\<close> update fails, that failure is
  logged and swallowed, \<open>processMessage\<close> returns the generated response, and the inserted
  message row stays.
\<close>

theorem C3_failure_policy:
  assumes l: "loadChatHistory env w sessionId = (h, w1)"
  shows
   "(\<forall>e. fault env HistorySelect = Some e \<longrightarrow>
        h = ''No previous conversation history.'' \<and>
        console w1 = console w @ [(''Error loading chat history:'', e)]) \<and>
    (\<forall>e. invoke env (search_query_prompt h message) = Inl e \<longrightarrow>
        fst (processMessage env w userId sessionId message category) =
          Inl (''Failed to process message: '' @ e) \<and>
        chat_messages (snd (processMessage env w userId sessionId message category)) = chat_messages w \<and>
        chat_sessions (snd (processMessage env w userId sessionId message category)) = chat_sessions w) \<and>
    (\<forall>q e. invoke env (search_query_prompt h message) = Inr q \<and>
        similaritySearch env q (similaritySearchResults env)
          (if truthy category then category else None) = Inl e \<longrightarrow>
        fst (processMessage env w userId sessionId message category) =
          Inl (''Failed to process message: '' @ e) \<and>
        chat_messages (snd (processMessage env w userId sessionId message category)) = chat_messages w \<and>
        chat_sessions (snd (processMessage env w userId sessionId message category)) = chat_sessions w) \<and>
    (\<forall>q docs e. invoke env (search_query_prompt h message) = Inr q \<and>
        similaritySearch env q (similaritySearchResults env)
          (if truthy category then category else None) = Inr docs \<and>
        invoke env (chat_prompt h message (context_slot (context_block docs))) = Inl e \<longrightarrow>
        fst (processMessage env w userId sessionId message category) =
          Inl (''Failed to process message: '' @ e) \<and>
        chat_messages (snd (processMessage env w userId sessionId message category)) = chat_messages w \<and>
        chat_sessions (snd (processMessage env w userId sessionId message category)) = chat_sessions w) \<and>
    (\<forall>q docs resp e. invoke env (search_query_prompt h message) = Inr q \<and>
        similaritySearch env q (similaritySearchResults env)
          (if truthy category then category else None) = Inr docs \<and>
        invoke env (chat_prompt h message (context_slot (context_block docs))) = Inr resp \<and>
        fault env MessageInsert = None \<and> fault env SessionTouch = Some e \<longrightarrow>
        fst (processMessage env w userId sessionId message category) =
          Inr \<lparr>response = resp,
               sources = (if length docs > 0 then Some (map source_of docs) else None)\<rparr> \<and>
        chat_messages (snd (processMessage env w userId sessionId message category)) =
          chat_messages w @
            [\<lparr>cm_user_id = userId, cm_session_id = sessionId, cm_user_message = message,
              cm_ai_response = resp, cm_created_at = now env\<rparr>] \<and>
        chat_sessions (snd (processMessage env w userId sessionId message category)) = chat_sessions w \<and>
        console (snd (processMessage env w userId sessionId message category)) =
          console w1 @ [(''Error updating session last message time:'', e)])"
proof -
  have t: "chat_messages w1 = chat_messages w" "chat_sessions w1 = chat_sessions w"
    using tables_loadChatHistory [of env w sessionId] l by simp_all
  have s1: "\<forall>e. fault env HistorySelect = Some e \<longrightarrow>
        h = ''No previous conversation history.'' \<and>
        console w1 = console w @ [(''Error loading chat history:'', e)]"
    using l by (auto simp: loadChatHistory_def log_error_def no_history_def)
  have s2: "\<forall>e. invoke env (search_query_prompt h message) = Inl e \<longrightarrow>
        fst (processMessage env w userId sessionId message category) =
          Inl (''Failed to process message: '' @ e) \<and>
        chat_messages (snd (processMessage env w userId sessionId message category)) = chat_messages w \<and>
        chat_sessions (snd (processMessage env w userId sessionId message category)) = chat_sessions w"
    using pm_rewrite_fails [OF l] t by simp
  have s3: "\<forall>q e. invoke env (search_query_prompt h message) = Inr q \<and>
        similaritySearch env q (similaritySearchResults env)
          (if truthy category then category else None) = Inl e \<longrightarrow>
        fst (processMessage env w userId sessionId message category) =
          Inl (''Failed to process message: '' @ e) \<and>
        chat_messages (snd (processMessage env w userId sessionId message category)) = chat_messages w \<and>
        chat_sessions (snd (processMessage env w userId sessionId message category)) = chat_sessions w"
    using pm_search_fails [OF l] t by simp
  have s4: "\<forall>q docs e. invoke env (search_query_prompt h message) = Inr q \<and>
        similaritySearch env q (similaritySearchResults env)
          (if truthy category then category else None) = Inr docs \<and>
        invoke env (chat_prompt h message (context_slot (context_block docs))) = Inl e \<longrightarrow>
        fst (processMessage env w userId sessionId message category) =
          Inl (''Failed to process message: '' @ e) \<and>
        chat_messages (snd (processMessage env w userId sessionId message category)) = chat_messages w \<and>
        chat_sessions (snd (processMessage env w userId sessionId message category)) = chat_sessions w"
    using pm_model_fails [OF l] t by simp
  have s5: "\<forall>q docs resp e. invoke env (search_query_prompt h message) = Inr q \<and>
        similaritySearch env q (similaritySearchResults env)
          (if truthy category then category else None) = Inr docs \<and>
        invoke env (chat_prompt h message (context_slot (context_block docs))) = Inr resp \<and>
        fault env MessageInsert = None \<and> fault env SessionTouch = Some e \<longrightarrow>
        fst (processMessage env w userId sessionId message category) =
          Inr \<lparr>response = resp,
               sources = (if length docs > 0 then Some (map source_of docs) else None)\<rparr> \<and>
        chat_messages (snd (processMessage env w userId sessionId message category)) =
          chat_messages w @
            [\<lparr>cm_user_id = userId, cm_session_id = sessionId, cm_user_message = message,
              cm_ai_response = resp, cm_created_at = now env\<rparr>] \<and>
        chat_sessions (snd (processMessage env w userId sessionId message category)) = chat_sessions w \<and>
        console (snd (processMessage env w userId sessionId message category)) =
          console w1 @ [(''Error updating session last message time:'', e)]"
    using pm_answered [OF l] t by (simp add: saveChatMessage_def log_error_def)
  from s1 s2 s3 s4 s5 show ?thesis by blast
qed

theorem C3_failure_policy_witness:
  "loadChatHistory history_down alice_world ''s1'' =
     (''No previous conversation history.'',
      alice_world\<lparr>console := [(''Error loading chat history:'', ''connection refused'')]\<rparr>) \<and>
   fst (processMessage rewrite_down alice_world ''alice'' ''s1'' ''hello'' None) =
     Inl ''Failed to process message: model overloaded'' \<and>
   fst (processMessage search_down alice_world ''alice'' ''s1'' ''hello'' None) =
     Inl ''Failed to process message: rpc failed'' \<and>
   fst (processMessage answer_down alice_world ''alice'' ''s1'' ''hello'' None) =
     Inl ''Failed to process message: quota exceeded'' \<and>
   fault touch_down SessionTouch = Some ''statement timeout'' \<and>
   fst (processMessage touch_down alice_world ''alice'' ''s1'' ''hello'' None) =
     Inr \<lparr>response = ''Take a slow breath.'', sources = None\<rparr> \<and>
   chat_messages (snd (processMessage touch_down alice_world ''alice'' ''s1'' ''hello'' None)) =
     [\<lparr>cm_user_id = ''alice'', cm_session_id = ''s1'', cm_user_message = ''hello'',
       cm_ai_response = ''Take a slow breath.'', cm_created_at = 1000\<rparr>] \<and>
   console (snd (processMessage touch_down alice_world ''alice'' ''s1'' ''hello'' None)) =
     [(''Error updating session last message time:'', ''statement timeout'')]"
proof -
  let ?h = "''No previous conversation history.''"
  have l0: "loadChatHistory history_down alice_world ''s1'' =
     (?h, alice_world\<lparr>console := [(''Error loading chat history:'', ''connection refused'')]\<rparr>)"
    by (simp add: history_down_def quiet_def alice_world_def loadChatHistory_def log_error_def
        no_history_def)
  have l1: "loadChatHistory rewrite_down alice_world ''s1'' = (?h, alice_world)"
    by (simp add: rewrite_down_def quiet_def alice_world_def loadChatHistory_def no_history_def)
  have l2: "loadChatHistory search_down alice_world ''s1'' = (?h, alice_world)"
    by (simp add: search_down_def quiet_def alice_world_def loadChatHistory_def no_history_def)
  have l3: "loadChatHistory answer_down alice_world ''s1'' = (?h, alice_world)"
    by (simp add: answer_down_def quiet_def alice_world_def loadChatHistory_def no_history_def)
  have l4: "loadChatHistory touch_down alice_world ''s1'' = (?h, alice_world)"
    by (simp add: touch_down_def quiet_def alice_world_def loadChatHistory_def no_history_def)
  have i1: "invoke rewrite_down (search_query_prompt ?h ''hello'') = Inl ''model overloaded''"
    by (simp add: rewrite_down_def quiet_def)
  have i2: "invoke search_down (search_query_prompt ?h ''hello'') = Inr ''Take a slow breath.'' \<and>
      similaritySearch search_down ''Take a slow breath.'' (similaritySearchResults search_down)
        (if truthy None then None else None) = Inl ''rpc failed''"
    by (simp add: search_down_def quiet_def)
  have i3: "invoke answer_down (search_query_prompt ?h ''hello'') = Inr ''anxiety'' \<and>
      similaritySearch answer_down ''anxiety'' (similaritySearchResults answer_down)
        (if truthy None then None else None) = Inr [] \<and>
      invoke answer_down (chat_prompt ?h ''hello'' (context_slot (context_block []))) =
        Inl ''quota exceeded''"
    by (simp add: answer_down_def quiet_def search_query_prompt_def chat_prompt_def)
  have i4: "invoke touch_down (search_query_prompt ?h ''hello'') = Inr ''Take a slow breath.'' \<and>
      similaritySearch touch_down ''Take a slow breath.'' (similaritySearchResults touch_down)
        (if truthy None then None else None) = Inr [] \<and>
      invoke touch_down (chat_prompt ?h ''hello'' (context_slot (context_block []))) =
        Inr ''Take a slow breath.'' \<and>
      fault touch_down MessageInsert = None \<and>
      fault touch_down SessionTouch = Some ''statement timeout''"
    by (simp add: touch_down_def quiet_def)
  have n: "now touch_down = 1000" "chat_messages alice_world = []" "console alice_world = []"
    by (simp_all add: touch_down_def quiet_def alice_world_def)
  have r1: "fst (processMessage rewrite_down alice_world ''alice'' ''s1'' ''hello'' None) =
     Inl (''Failed to process message: '' @ ''model overloaded'')"
    using C3_failure_policy [OF l1, of "''hello''" "''alice''" None] i1 by blast
  have r2: "fst (processMessage search_down alice_world ''alice'' ''s1'' ''hello'' None) =
     Inl (''Failed to process message: '' @ ''rpc failed'')"
    using C3_failure_policy [OF l2, of "''hello''" "''alice''" None] i2 by blast
  have r3: "fst (processMessage answer_down alice_world ''alice'' ''s1'' ''hello'' None) =
     Inl (''Failed to process message: '' @ ''quota exceeded'')"
    using C3_failure_policy [OF l3, of "''hello''" "''alice''" None] i3 by blast
  have r4: "fst (processMessage touch_down alice_world ''alice'' ''s1'' ''hello'' None) =
       Inr \<lparr>response = ''Take a slow breath.'',
            sources = (if length ([]::document list) > 0 then Some (map source_of []) else None)\<rparr> \<and>
     chat_messages (snd (processMessage touch_down alice_world ''alice'' ''s1'' ''hello'' None)) =
       chat_messages alice_world @
       [\<lparr>cm_user_id = ''alice'', cm_session_id = ''s1'', cm_user_message = ''hello'',
         cm_ai_response = ''Take a slow breath.'', cm_created_at = now touch_down\<rparr>] \<and>
     console (snd (processMessage touch_down alice_world ''alice'' ''s1'' ''hello'' None)) =
       console alice_world @ [(''Error updating session last message time:'', ''statement timeout'')]"
    using C3_failure_policy [OF l4, of "''hello''" "''alice''" None] i4 by blast
  from l0 r1 r2 r3 r4 i4 n show ?thesis by simp
qed

lemma set_title_stored:
  assumes m: "s' \<in> set (chat_sessions (set_title sid title w))" and i: "cs_id s' = sid"
  shows "cs_title s' = title"
proof -
  from m have "s' \<in> (\<lambda>s. if cs_id s = sid then s\<lparr>cs_title := title\<rparr> else s) ` set (chat_sessions w)"
    by (simp add: set_title_def)
  then obtain x where x: "s' = (if cs_id x = sid then x\<lparr>cs_title := title\<rparr> else x)"
    by blast
  show ?thesis
  proof (cases "cs_id x = sid")
    case True
    with x show ?thesis by simp
  next
    case False
    with x have "s' = x" by simp
    with i False show ?thesis by simp
  qed
qed

lemma gct_len:
   "length (fst (generateChatTitle env w userId sessionId message)) \<le> 50"
    by (simp add: generateChatTitle_def model_call_def Let_def
        split: sum.splits option.splits)

lemma gct_ok:
  assumes f: "find_owned_session env w sessionId userId = Inr s"
    and i: "invoke env (title_prompt (take 200 message)) = Inr out"
  shows "generateChatTitle env w userId sessionId message =
    (case fault env TitleUpdate of
          Some e \<Rightarrow> (if length (trim out) > 50 then take 47 (trim out) @ ''...'' else trim out,
             log_error ''Error updating session title:'' e (w\<lparr>prompts := prompts w @ [title_prompt (take 200 message)]\<rparr>))
        | None \<Rightarrow> (if length (trim out) > 50 then take 47 (trim out) @ ''...'' else trim out,
             set_title sessionId (if length (trim out) > 50 then take 47 (trim out) @ ''...'' else trim out)
                 (w\<lparr>prompts := prompts w @ [title_prompt (take 200 message)]\<rparr>)))"
  using f i by (simp add: generateChatTitle_def model_call_def Let_def)


text \<open>
  C5. The title that \<open>generateChatTitle\<close> returns is never longer than 50 characters. When
  the session check passes and the model answers, the title is the trimmed model output if
  that has at most 50 characters, and otherwise its first 47 characters followed by
  \<open>...\<close>; when the title update succeeds, this same title is the one stored for the session.
\<close>

theorem C5_title_at_most_50:
  "length (fst (generateChatTitle env w userId sessionId message)) \<le> 50 \<and>
   (\<forall>s out. find_owned_session env w sessionId userId = Inr s \<and>
       invoke env (title_prompt (take 200 message)) = Inr out \<longrightarrow>
       fst (generateChatTitle env w userId sessionId message) =
         (if length (trim out) > 50 then take 47 (trim out) @ ''...'' else trim out) \<and>
       (fault env TitleUpdate = None \<longrightarrow>
          (\<forall>s'\<in>set (chat_sessions (snd (generateChatTitle env w userId sessionId message))).
              cs_id s' = sessionId \<longrightarrow>
              cs_title s' = fst (generateChatTitle env w userId sessionId message))))"
proof -
  have b: "fst (generateChatTitle env w userId sessionId message) =
         (if length (trim out) > 50 then take 47 (trim out) @ ''...'' else trim out) \<and>
       (fault env TitleUpdate = None \<longrightarrow>
          (\<forall>s'\<in>set (chat_sessions (snd (generateChatTitle env w userId sessionId message))).
              cs_id s' = sessionId \<longrightarrow>
              cs_title s' = fst (generateChatTitle env w userId sessionId message)))"
    if f: "find_owned_session env w sessionId userId = Inr s"
      and i: "invoke env (title_prompt (take 200 message)) = Inr out" for s out
  proof (cases "fault env TitleUpdate")
    case None
    with gct_ok [OF f i] show ?thesis
      using set_title_stored by simp
  next
    case (Some e)
    with gct_ok [OF f i] show ?thesis by simp
  qed
  with gct_len [of env w userId sessionId message] show ?thesis by blast
qed

theorem C5_title_at_most_50_witness:
  "find_owned_session wordy alice_world ''s1'' ''alice'' =
     Inr \<lparr>cs_id = ''s1'', cs_user_id = ''alice'', cs_title = ''Sleep'',
          cs_created_at = 10, cs_last_message_at = 10\<rparr> \<and>
   invoke wordy (title_prompt (take 200 ''I cannot sleep'')) =
     Inr ''  Coping Strategies For Persistent Workplace Anxiety And Insomnia\<newline>'' \<and>
   fault wordy TitleUpdate = None \<and>
   fst (generateChatTitle wordy alice_world ''alice'' ''s1'' ''I cannot sleep'') =
     ''Coping Strategies For Persistent Workplace Anxi...'' \<and>
   map cs_title (chat_sessions (snd (generateChatTitle wordy alice_world ''alice'' ''s1'' ''I cannot sleep'')))
     = [''Coping Strategies For Persistent Workplace Anxi...'']"
proof -
  let ?out = "''  Coping Strategies For Persistent Workplace Anxiety And Insomnia\<newline>''"
  have f: "find_owned_session wordy alice_world ''s1'' ''alice'' =
     Inr \<lparr>cs_id = ''s1'', cs_user_id = ''alice'', cs_title = ''Sleep'',
          cs_created_at = 10, cs_last_message_at = 10\<rparr>"
    by (simp add: find_owned_session_def wordy_def quiet_def alice_world_def single_def)
  have i: "invoke wordy (title_prompt (take 200 ''I cannot sleep'')) = Inr ?out"
    by (simp add: wordy_def quiet_def)
  have u: "fault wordy TitleUpdate = None"
    by (simp add: wordy_def quiet_def)
  have t: "trim ?out = ''Coping Strategies For Persistent Workplace Anxiety And Insomnia''"
    by (simp add: trim_def is_space_def)
  have r: "fst (generateChatTitle wordy alice_world ''alice'' ''s1'' ''I cannot sleep'') =
     ''Coping Strategies For Persistent Workplace Anxi...''"
    using C5_title_at_most_50 [of wordy alice_world "''alice''" "''s1''" "''I cannot sleep''"] f i
    by (simp add: t)
  have s: "map cs_title (chat_sessions (snd (generateChatTitle wordy alice_world ''alice'' ''s1'' ''I cannot sleep'')))
     = [''Coping Strategies For Persistent Workplace Anxi...'']"
    using gct_ok [OF f i] u t by (simp add: set_title_def alice_world_def)
  from f i u r s show ?thesis by simp
qed

text \<open>
  The write paths of a session: \<open>saveChatMessage\<close> inserts whoever the caller is, while
  \<open>deleteChatSession\<close>, \<open>updateChatTitle\<close> and \<open>generateChatTitle\<close> change a table only for a
  session that the ownership query found.
\<close>

lemma saveChatMessage_ignores_owner:
  "fault env MessageInsert = None \<Longrightarrow>
   chat_messages (snd (saveChatMessage env w userId sessionId userMessage aiResponse)) =
     chat_messages w @
       [\<lparr>cm_user_id = userId, cm_session_id = sessionId, cm_user_message = userMessage,
         cm_ai_response = aiResponse, cm_created_at = now env\<rparr>]"
  by (simp add: saveChatMessage_def Let_def log_error_def split: option.splits)

lemma find_owned_session_owner:
  assumes a: "find_owned_session env w sessionId userId = Inr s"
  shows "s \<in> set (chat_sessions w) \<and> cs_id s = sessionId \<and> cs_user_id s = userId"
proof -
  from a have "filter (\<lambda>s. cs_id s = sessionId \<and> cs_user_id s = userId) (chat_sessions w) = [s]"
    by (auto simp: find_owned_session_def single_def split: option.splits list.splits)
  then have "s \<in> set (filter (\<lambda>s. cs_id s = sessionId \<and> cs_user_id s = userId) (chat_sessions w))"
    by simp
  then show ?thesis by simp
qed

lemma deleteChatSession_checks_owner:
  assumes "chat_sessions (snd (deleteChatSession env w userId sessionId)) \<noteq> chat_sessions w \<or>
           chat_messages (snd (deleteChatSession env w userId sessionId)) \<noteq> chat_messages w"
  shows "\<exists>s\<in>set (chat_sessions w). cs_id s = sessionId \<and> cs_user_id s = userId"
proof (cases "find_owned_session env w sessionId userId")
  case (Inl e)
  with assms show ?thesis by (simp add: deleteChatSession_def)
next
  case (Inr s)
  then show ?thesis using find_owned_session_owner by blast
qed

lemma updateChatTitle_checks_owner:
  assumes "chat_sessions (snd (updateChatTitle env w userId sessionId title)) \<noteq> chat_sessions w \<or>
           chat_messages (snd (updateChatTitle env w userId sessionId title)) \<noteq> chat_messages w"
  shows "\<exists>s\<in>set (chat_sessions w). cs_id s = sessionId \<and> cs_user_id s = userId"
proof (cases "find_owned_session env w sessionId userId")
  case (Inl e)
  with assms show ?thesis by (simp add: updateChatTitle_def)
next
  case (Inr s)
  then show ?thesis using find_owned_session_owner by blast
qed

lemma generateChatTitle_checks_owner:
  assumes "chat_sessions (snd (generateChatTitle env w userId sessionId message)) \<noteq> chat_sessions w \<or>
           chat_messages (snd (generateChatTitle env w userId sessionId message)) \<noteq> chat_messages w"
  shows "\<exists>s\<in>set (chat_sessions w). cs_id s = sessionId \<and> cs_user_id s = userId"
proof (cases "find_owned_session env w sessionId userId")
  case (Inl e)
  with assms show ?thesis by (simp add: generateChatTitle_def)
next
  case (Inr s)
  then show ?thesis using find_owned_session_owner by blast
qed

section \<open>Properties of the document service\<close>

lemma set_new_Set: "set (new_Set seen xs) = set seen \<union> set xs"
  by (induction xs arbitrary: seen) auto

lemma distinct_new_Set: "distinct seen \<Longrightarrow> distinct (new_Set seen xs)"
  by (induction xs arbitrary: seen) auto

lemma set_order_by_category: "set (order_by_category rows) = set rows"
  by (auto simp: order_by_category_def)

lemma distinct_map_the:
  assumes "distinct xs" and "None \<notin> set xs"
  shows "distinct (map the xs)"
proof -
  have "inj_on the (set xs)"
  proof (rule inj_onI)
    fix x y assume "x \<in> set xs" "y \<in> set xs" "the x = the y"
    with assms(2) show "x = y" by (cases x; cases y) auto
  qed
  with assms(1) show ?thesis by (simp add: distinct_map)
qed

lemma count_list_distinct: "distinct xs \<Longrightarrow> x \<in> set xs \<Longrightarrow> count_list xs x = 1"
  by (induction xs) auto

lemma getCategories_result:
  assumes "getCategories env lib = Inr cs"
  shows "distinct cs \<and> [] \<notin> set cs \<and>
         set cs = {c. c \<noteq> [] \<and> (\<exists>d\<in>set (metadata_rows lib). dm_category d = Some c)}"
proof -
  let ?vals = "new_Set [] (map dm_category (order_by_category (metadata_rows lib)))"
  let ?kept = "filter truthy ?vals"
  from assms have cs: "cs = map the ?kept"
    by (simp add: getCategories_def split: option.splits)
  have d: "distinct ?kept" by (simp add: distinct_new_Set)
  have n: "None \<notin> set ?kept" by (simp add: truthy_def)
  have s: "set ?kept = {v. truthy v \<and> v \<in> dm_category ` set (metadata_rows lib)}"
    by (auto simp: set_new_Set set_order_by_category)
  have "distinct cs" using cs distinct_map_the [OF d n] by simp
  moreover have "set cs = {c. c \<noteq> [] \<and> (\<exists>d\<in>set (metadata_rows lib). dm_category d = Some c)}"
  proof -
    have "set cs = the ` set ?kept" using cs by simp
    also have "\<dots> = the ` {v. truthy v \<and> v \<in> dm_category ` set (metadata_rows lib)}"
      using s by simp
    also have "\<dots> = {c. c \<noteq> [] \<and> (\<exists>d\<in>set (metadata_rows lib). dm_category d = Some c)}"
      by (force simp: truthy_def image_iff split: option.splits)
    finally show ?thesis .
  qed
  ultimately show ?thesis by auto
qed

lemma pd_try_unsupported:
  assumes "pick_loader (extname_lower env (originalname file)) = None"
  shows "pr_success r \<Longrightarrow> processDocument_try env lib0 file meta \<noteq> (Inr r, lib)"
  using assms
  by (auto simp add: processDocument_try_def Let_def split: option.splits)

lemma processDocument_try_success_row:
  assumes a: "processDocument_try env lib0 file meta = (Inr r, lib)" and s: "pr_success r"
  shows "\<exists>d\<in>set (metadata_rows lib). dm_category d = Some (or_else (in_category meta) ''general'')"
proof -
  have w: "doc_fault env TempWrite = None"
    using a by (cases "doc_fault env TempWrite") (simp_all add: processDocument_try_def)
  obtain ld where ld: "pick_loader (extname_lower env (originalname file)) = Some ld"
  proof (cases "pick_loader (extname_lower env (originalname file))")
    case None
    from pd_try_unsupported [OF None s] a show ?thesis by blast
  next
    case (Some ld)
    then show ?thesis using that by blast
  qed
  obtain loaded where lo: "load env ld file = Inr loaded"
    using a w ld by (cases "load env ld file") (simp_all add: processDocument_try_def)
  obtain splitDocs where sp: "splitDocuments env (map (add_metadata env file meta) loaded) = Inr splitDocs"
    using a w ld lo
    by (cases "splitDocuments env (map (add_metadata env file meta) loaded)")
       (simp_all add: processDocument_try_def)
  have mi: "doc_fault env MetadataInsert = None"
    using a w ld lo sp
    by (cases "doc_fault env MetadataInsert") (simp_all add: processDocument_try_def)
  have ad: "doc_fault env AddDocuments = None"
    using a w ld lo sp mi
    by (cases "doc_fault env AddDocuments") (simp_all add: processDocument_try_def Let_def)
  have un: "doc_fault env TempUnlink = None"
    using a w ld lo sp mi ad
    by (cases "doc_fault env TempUnlink") (simp_all add: processDocument_try_def Let_def)
  have "metadata_rows lib = metadata_rows lib0 @
      [\<lparr>dm_id = new_id env, dm_title = in_title meta,
        dm_description = or_else (in_description meta) [],
        dm_category = Some (or_else (in_category meta) ''general''),
        dm_file_name = originalname file, dm_chunk_count = length splitDocs,
        dm_file_type = drop_first_dot (extname_lower env (originalname file))\<rparr>]"
    using a w ld lo sp mi ad un by (auto simp add: processDocument_try_def Let_def)
  then show ?thesis by simp
qed

lemma processDocument_success_row:
  assumes "processDocument env lib0 file meta = (r, lib)" and "pr_success r"
  shows "\<exists>d\<in>set (metadata_rows lib). dm_category d = Some (or_else (in_category meta) ''general'')"
proof (cases "processDocument_try env lib0 file meta")
  case (Pair res lib')
  show ?thesis
  proof (cases res)
    case (Inl e)
    with Pair assms show ?thesis by (auto simp add: processDocument_def)
  next
    case (Inr r')
    with Pair assms have "r' = r" "lib' = lib" by (simp_all add: processDocument_def)
    with Pair Inr assms(2) processDocument_try_success_row show ?thesis by blast
  qed
qed

lemma or_else_nonempty: "d \<noteq> [] \<Longrightarrow> or_else v d \<noteq> []"
  by (simp add: or_else_def split: option.splits)

text \<open>
  C9. Whatever the rows of \<open>document_metadata\<close>, a list returned by \<open>getCategories\<close> holds
  every category value at most once, holds no empty string, and holds exactly the non-empty
  categories of the table (null categories are dropped). In particular, when \<open>getCategories\<close>
  runs on the table a successful \<open>processDocument\<close> left behind, the category of the
  uploaded document (\<open>general\<close> when none was given) is listed exactly once.
\<close>

theorem C9_categories_listed_once:
  "(\<forall>cs. getCategories env lib = Inr cs \<longrightarrow>
       distinct cs \<and> [] \<notin> set cs \<and>
       set cs = {c. c \<noteq> [] \<and> (\<exists>d\<in>set (metadata_rows lib). dm_category d = Some c)}) \<and>
   (\<forall>env0 lib0 file meta r cs.
       processDocument env0 lib0 file meta = (r, lib) \<and> pr_success r \<and>
       getCategories env lib = Inr cs \<longrightarrow>
       count_list cs (or_else (in_category meta) ''general'') = 1)"
proof -
  have two: "count_list cs (or_else (in_category meta) ''general'') = 1"
    if u: "processDocument env0 lib0 upl meta = (r, lib)" and ok: "pr_success r"
      and g: "getCategories env lib = Inr cs" for env0 lib0 upl meta r cs
  proof -
    let ?c = "or_else (in_category meta) ''general''"
    have "?c \<noteq> []" by (simp add: or_else_nonempty)
    with processDocument_success_row [OF u ok] getCategories_result [OF g]
    have "distinct cs" and "?c \<in> set cs" by auto
    then show ?thesis by (rule count_list_distinct)
  qed
  have one: "\<forall>cs. getCategories env lib = Inr cs \<longrightarrow>
       distinct cs \<and> [] \<notin> set cs \<and>
       set cs = {c. c \<noteq> [] \<and> (\<exists>d\<in>set (metadata_rows lib). dm_category d = Some c)}"
  proof (intro allI impI)
    fix cs assume "getCategories env lib = Inr cs"
    then show "distinct cs \<and> [] \<notin> set cs \<and>
       set cs = {c. c \<noteq> [] \<and> (\<exists>d\<in>set (metadata_rows lib). dm_category d = Some c)}"
      by (rule getCategories_result)
  qed
  have "\<forall>env0 lib0 upl meta r cs.
       processDocument env0 lib0 upl meta = (r, lib) \<and> pr_success r \<and>
       getCategories env lib = Inr cs \<longrightarrow>
       count_list cs (or_else (in_category meta) ''general'') = 1"
    using two by blast
  with one show ?thesis by (rule conjI)
qed

theorem C9_categories_listed_once_witness:
  "fst (processDocument desk shelf sleep_guide sleep_guide_meta) =
     \<lparr>pr_success = True, pr_message = ''Successfully processed guide.pdf into 1 chunks'',
      pr_documentId = Some ''d6''\<rparr> \<and>
   map dm_category (metadata_rows (snd (processDocument desk shelf sleep_guide sleep_guide_meta))) =
     [Some ''sleep'', None, Some [], Some ''anxiety'', Some ''sleep''] \<and>
   getCategories desk (snd (processDocument desk shelf sleep_guide sleep_guide_meta)) =
     Inr [''anxiety'', ''sleep''] \<and>
   count_list [''anxiety'', ''sleep''] (or_else (in_category sleep_guide_meta) ''general'') = 1"
proof -
  let ?lib = "snd (processDocument desk shelf sleep_guide sleep_guide_meta)"
  let ?r = "fst (processDocument desk shelf sleep_guide sleep_guide_meta)"
  have r: "?r = \<lparr>pr_success = True, pr_message = ''Successfully processed guide.pdf into 1 chunks'',
      pr_documentId = Some ''d6''\<rparr>"
    by code_simp
  have m: "map dm_category (metadata_rows ?lib) =
     [Some ''sleep'', None, Some [], Some ''anxiety'', Some ''sleep'']"
    by code_simp
  have g: "getCategories desk ?lib = Inr [''anxiety'', ''sleep'']"
    by code_simp
  have p: "processDocument desk shelf sleep_guide sleep_guide_meta = (?r, ?lib)" by simp
  have ok: "pr_success ?r" using r by simp
  have c: "count_list [''anxiety'', ''sleep''] (or_else (in_category sleep_guide_meta) ''general'') = 1"
    by (rule C9_categories_listed_once [of desk ?lib, THEN conjunct2, rule_format,
          OF conjI [OF p conjI [OF ok g]]])
  from r m g c show ?thesis by (intro conjI)
qed

lemma deleteDocument_vector_fails:
  "doc_fault env VectorDelete = Some e \<Longrightarrow>
   deleteDocument env lib documentId =
     (\<lparr>dr_success = False,
       dr_message = ''Error deleting document: Failed to delete document chunks: '' @ e\<rparr>,
      doc_log ''Error deleting document:'' (''Failed to delete document chunks: '' @ e) lib)"
  by (simp add: deleteDocument_def)

lemma deleteDocument_metadata_fails:
  "doc_fault env VectorDelete = None \<Longrightarrow> doc_fault env MetadataDelete = Some e \<Longrightarrow>
   deleteDocument env lib documentId =
     (\<lparr>dr_success = False,
       dr_message = ''Error deleting document: Failed to delete document metadata: '' @ e\<rparr>,
      doc_log ''Error deleting document:'' (''Failed to delete document metadata: '' @ e)
        (lib\<lparr>vector_rows :=
               filter (\<lambda>r. pg_metadata r ''documentId'' \<noteq> Some documentId) (vector_rows lib)\<rparr>))"
  by (simp add: deleteDocument_def)

lemma deleteDocument_both:
  "doc_fault env VectorDelete = None \<Longrightarrow> doc_fault env MetadataDelete = None \<Longrightarrow>
   deleteDocument env lib documentId =
     (\<lparr>dr_success = True, dr_message = ''Document successfully deleted''\<rparr>,
      lib\<lparr>vector_rows :=
             filter (\<lambda>r. pg_metadata r ''documentId'' \<noteq> Some documentId) (vector_rows lib),
          metadata_rows := filter (\<lambda>d. dm_id d \<noteq> documentId) (metadata_rows lib)\<rparr>)"
  by (simp add: deleteDocument_def)

text \<open>
  C4. \<open>deleteDocument\<close> reports success exactly when the deletion of the vector rows and the
  deletion of the metadata row both succeed, and then no vector row with this
  \<open>documentId\<close> and no metadata row with this id is left. When the vector rows are deleted
  and the metadata deletion fails, the result is one failure message, the vector rows of
  the document stay deleted (nothing is rolled back) and the metadata table is as before.
  When the deletion of the vector rows fails, the result is one failure message and both
  stores are as before.
\<close>

theorem C4_deleteDocument:
  "(dr_success (fst (deleteDocument env lib documentId)) \<longleftrightarrow>
      doc_fault env VectorDelete = None \<and> doc_fault env MetadataDelete = None) \<and>
   (doc_fault env VectorDelete = None \<and> doc_fault env MetadataDelete = None \<longrightarrow>
      vector_rows (snd (deleteDocument env lib documentId)) =
        filter (\<lambda>r. pg_metadata r ''documentId'' \<noteq> Some documentId) (vector_rows lib) \<and>
      metadata_rows (snd (deleteDocument env lib documentId)) =
        filter (\<lambda>d. dm_id d \<noteq> documentId) (metadata_rows lib) \<and>
      (\<forall>r\<in>set (vector_rows (snd (deleteDocument env lib documentId))).
          pg_metadata r ''documentId'' \<noteq> Some documentId) \<and>
      (\<forall>d\<in>set (metadata_rows (snd (deleteDocument env lib documentId))). dm_id d \<noteq> documentId)) \<and>
   (\<forall>e. doc_fault env VectorDelete = None \<and> doc_fault env MetadataDelete = Some e \<longrightarrow>
      fst (deleteDocument env lib documentId) =
        \<lparr>dr_success = False,
         dr_message = ''Error deleting document: Failed to delete document metadata: '' @ e\<rparr> \<and>
      vector_rows (snd (deleteDocument env lib documentId)) =
        filter (\<lambda>r. pg_metadata r ''documentId'' \<noteq> Some documentId) (vector_rows lib) \<and>
      (\<forall>r\<in>set (vector_rows (snd (deleteDocument env lib documentId))).
          pg_metadata r ''documentId'' \<noteq> Some documentId) \<and>
      metadata_rows (snd (deleteDocument env lib documentId)) = metadata_rows lib) \<and>
   (\<forall>e. doc_fault env VectorDelete = Some e \<longrightarrow>
      fst (deleteDocument env lib documentId) =
        \<lparr>dr_success = False,
         dr_message = ''Error deleting document: Failed to delete document chunks: '' @ e\<rparr> \<and>
      vector_rows (snd (deleteDocument env lib documentId)) = vector_rows lib \<and>
      metadata_rows (snd (deleteDocument env lib documentId)) = metadata_rows lib)"
proof -
  have iff: "dr_success (fst (deleteDocument env lib documentId)) \<longleftrightarrow>
      doc_fault env VectorDelete = None \<and> doc_fault env MetadataDelete = None"
    by (simp add: deleteDocument_def Let_def split: option.splits)
  have both: "doc_fault env VectorDelete = None \<and> doc_fault env MetadataDelete = None \<longrightarrow>
      vector_rows (snd (deleteDocument env lib documentId)) =
        filter (\<lambda>r. pg_metadata r ''documentId'' \<noteq> Some documentId) (vector_rows lib) \<and>
      metadata_rows (snd (deleteDocument env lib documentId)) =
        filter (\<lambda>d. dm_id d \<noteq> documentId) (metadata_rows lib) \<and>
      (\<forall>r\<in>set (vector_rows (snd (deleteDocument env lib documentId))).
          pg_metadata r ''documentId'' \<noteq> Some documentId) \<and>
      (\<forall>d\<in>set (metadata_rows (snd (deleteDocument env lib documentId))). dm_id d \<noteq> documentId)"
    by (simp add: deleteDocument_both)
  have part: "\<forall>e. doc_fault env VectorDelete = None \<and> doc_fault env MetadataDelete = Some e \<longrightarrow>
      fst (deleteDocument env lib documentId) =
        \<lparr>dr_success = False,
         dr_message = ''Error deleting document: Failed to delete document metadata: '' @ e\<rparr> \<and>
      vector_rows (snd (deleteDocument env lib documentId)) =
        filter (\<lambda>r. pg_metadata r ''documentId'' \<noteq> Some documentId) (vector_rows lib) \<and>
      (\<forall>r\<in>set (vector_rows (snd (deleteDocument env lib documentId))).
          pg_metadata r ''documentId'' \<noteq> Some documentId) \<and>
      metadata_rows (snd (deleteDocument env lib documentId)) = metadata_rows lib"
    by (simp add: deleteDocument_metadata_fails doc_log_def)
  have none: "\<forall>e. doc_fault env VectorDelete = Some e \<longrightarrow>
      fst (deleteDocument env lib documentId) =
        \<lparr>dr_success = False,
         dr_message = ''Error deleting document: Failed to delete document chunks: '' @ e\<rparr> \<and>
      vector_rows (snd (deleteDocument env lib documentId)) = vector_rows lib \<and>
      metadata_rows (snd (deleteDocument env lib documentId)) = metadata_rows lib"
    by (simp add: deleteDocument_vector_fails doc_log_def)
  from iff both part none show ?thesis by (intro conjI)
qed

theorem C4_deleteDocument_witness:
  "dr_success (fst (deleteDocument desk shelf ''d1'')) \<and>
   map pg_content (vector_rows (snd (deleteDocument desk shelf ''d1''))) = [''Breathe.''] \<and>
   map dm_id (metadata_rows (snd (deleteDocument desk shelf ''d1''))) = [''d2'', ''d3'', ''d4''] \<and>
   doc_fault metadata_stuck MetadataDelete = Some ''deadlock detected'' \<and>
   fst (deleteDocument metadata_stuck shelf ''d1'') =
     \<lparr>dr_success = False,
      dr_message = ''Error deleting document: Failed to delete document metadata: deadlock detected''\<rparr> \<and>
   map pg_content (vector_rows (snd (deleteDocument metadata_stuck shelf ''d1''))) = [''Breathe.''] \<and>
   map dm_id (metadata_rows (snd (deleteDocument metadata_stuck shelf ''d1''))) =
     [''d1'', ''d2'', ''d3'', ''d4'']"
proof -
  have f1: "doc_fault desk VectorDelete = None \<and> doc_fault desk MetadataDelete = None"
    by (simp add: desk_def)
  have f2: "doc_fault metadata_stuck VectorDelete = None \<and>
            doc_fault metadata_stuck MetadataDelete = Some ''deadlock detected''"
    by (simp add: metadata_stuck_def desk_def)
  have v: "map pg_content (filter (\<lambda>r. pg_metadata r ''documentId'' \<noteq> Some ''d1'') (vector_rows shelf))
            = [''Breathe.'']"
    by (simp add: shelf_def)
  have m: "map dm_id (filter (\<lambda>d. dm_id d \<noteq> ''d1'') (metadata_rows shelf)) = [''d2'', ''d3'', ''d4'']"
      "map dm_id (metadata_rows shelf) = [''d1'', ''d2'', ''d3'', ''d4'']"
    by (simp_all add: shelf_def)
  note a = C4_deleteDocument [of desk shelf "''d1''"]
  note b = C4_deleteDocument [of metadata_stuck shelf "''d1''"]
  have a1: "dr_success (fst (deleteDocument desk shelf ''d1''))"
    using a [THEN conjunct1] f1 by simp
  note a' = a [THEN conjunct2, THEN conjunct1, rule_format, OF f1]
  note b' = b [THEN conjunct2, THEN conjunct2, THEN conjunct1, rule_format, OF f2]
  have a2: "vector_rows (snd (deleteDocument desk shelf ''d1'')) =
        filter (\<lambda>r. pg_metadata r ''documentId'' \<noteq> Some ''d1'') (vector_rows shelf)"
    using a' by (rule conjunct1)
  have a3: "metadata_rows (snd (deleteDocument desk shelf ''d1'')) =
        filter (\<lambda>d. dm_id d \<noteq> ''d1'') (metadata_rows shelf)"
    using a' [THEN conjunct2] by (rule conjunct1)
  have b1: "fst (deleteDocument metadata_stuck shelf ''d1'') =
        \<lparr>dr_success = False,
         dr_message = ''Error deleting document: Failed to delete document metadata: '' @ ''deadlock detected''\<rparr>"
    using b' by (rule conjunct1)
  have b2: "vector_rows (snd (deleteDocument metadata_stuck shelf ''d1'')) =
        filter (\<lambda>r. pg_metadata r ''documentId'' \<noteq> Some ''d1'') (vector_rows shelf)"
    using b' [THEN conjunct2] by (rule conjunct1)
  have b3: "metadata_rows (snd (deleteDocument metadata_stuck shelf ''d1'')) = metadata_rows shelf"
    using b' [THEN conjunct2, THEN conjunct2] by (rule conjunct2)
  have c1: "map pg_content (vector_rows (snd (deleteDocument desk shelf ''d1''))) = [''Breathe.'']"
    by (simp only: a2 v)
  have c2: "map dm_id (metadata_rows (snd (deleteDocument desk shelf ''d1''))) = [''d2'', ''d3'', ''d4'']"
    by (simp only: a3 m)
  have c3: "map pg_content (vector_rows (snd (deleteDocument metadata_stuck shelf ''d1''))) = [''Breathe.'']"
    by (simp only: b2 v)
  have c4: "map dm_id (metadata_rows (snd (deleteDocument metadata_stuck shelf ''d1''))) =
     [''d1'', ''d2'', ''d3'', ''d4'']"
    by (simp only: b3 m)
  have c5: "fst (deleteDocument metadata_stuck shelf ''d1'') =
     \<lparr>dr_success = False,
      dr_message = ''Error deleting document: Failed to delete document metadata: deadlock detected''\<rparr>"
    using b1 by simp
  from a1 c1 c2 f2 [THEN conjunct2] c5 c3 c4 show ?thesis by (intro conjI)
qed

section \<open>Properties of the admin gate\<close>

lemma requireAdmin_claim:
  "au_is_admin user = JBool True \<Longrightarrow> requireAdmin env (Some user) = Inr ()"
  by (simp add: requireAdmin_def)

lemma requireAdmin_row:
  assumes "au_is_admin user \<noteq> JBool True" and "role_fault env = None"
    and "filter (\<lambda>r. ur_id r = au_id user) (users env) = [r]"
  shows "requireAdmin env (Some user) =
     (if ur_role r = Some ''admin'' then Inr ()
      else Inl \<lparr>res_code = 403, res_status = False, res_msg = ''Admin privileges required''\<rparr>)"
  using assms by (simp add: requireAdmin_def single_def)

lemma requireAdmin_store_error:
  assumes "au_is_admin user \<noteq> JBool True" and "role_fault env = Some e"
  shows "requireAdmin env (Some user) =
     Inl \<lparr>res_code = 500, res_status = False, res_msg = ''Error verifying user permissions''\<rparr>"
  using assms by (simp add: requireAdmin_def)

lemma requireAdmin_not_401: "requireAdmin env (Some user) = Inl res \<Longrightarrow> res_code res \<noteq> 401"
  by (auto simp: requireAdmin_def split: if_splits sum.splits option.splits)

text \<open>
  \<open>GET /auth/users\<close> is decided by the claim alone: a signed-in user whose claim is not the
  boolean \<open>true\<close> is answered 403 there, whatever the \<open>users\<close> table holds.
\<close>

lemma users_route_claim_only:
  assumes "requireAuth env authorization = Inr user"
  shows "users_route env authorization =
     (if au_is_admin user = JBool True then Inr user
      else Inl \<lparr>res_code = 403, res_status = False, res_msg = ''Admin access required''\<rparr>)"
  using assms by (simp add: users_route_def AuthMiddleware_requireAdmin_def)

text \<open>
  C6, as stated, fails when the role query returns a store error: the token of \<open>dave\<close> is
  valid, his \<open>is_admin\<close> claim is \<open>false\<close>, his row in \<open>users\<close> has the role \<open>user\<close>, the role query
  comes back with an error, and the upload route answers 500, not 403.
\<close>

theorem C6_counterexample:
  "requireAuth store_down (Some ''Bearer tok-dave'') =
     Inr \<lparr>au_id = ''u4'', au_is_admin = JBool False\<rparr> \<and>
   filter (\<lambda>r. ur_id r = ''u4'') (users store_down) = [\<lparr>ur_id = ''u4'', ur_role = Some ''user''\<rparr>] \<and>
   role_fault store_down = Some ''connection refused'' \<and>
   upload_route store_down (Some ''Bearer tok-dave'') =
     Inl \<lparr>res_code = 500, res_status = False, res_msg = ''Error verifying user permissions''\<rparr>"
  by (simp add: upload_route_def requireAuth_def requireAdmin_def store_down_def front_door_def
      starts_with_Bearer_def bearer_token_def)

text \<open>
  C6, amended. For a request to the document upload route (and so to every route that
  mounts \<open>requireAuth\<close> and then \<open>AdminMiddleware.requireAdmin\<close>) whose bearer token the
  identity provider resolves to a user: when the \<open>is_admin\<close> claim of the token is the boolean
  \<open>true\<close> the handler is reached without a look at the \<open>users\<close> table; otherwise the role is
  looked up in \<open>users\<close>, and when the lookup returns the user's row the handler is reached for
  the role \<open>admin\<close> and the response is 403 for any other role; when the lookup comes back
  with a store error the response is 500. The response is never 401.
\<close>

theorem C6_admin_gate:
  assumes a: "requireAuth env authorization = Inr user"
  shows
   "(au_is_admin user = JBool True \<longrightarrow> upload_route env authorization = Inr user) \<and>
    (\<forall>r. au_is_admin user \<noteq> JBool True \<and> role_fault env = None \<and>
         filter (\<lambda>r. ur_id r = au_id user) (users env) = [r] \<longrightarrow>
         upload_route env authorization =
           (if ur_role r = Some ''admin'' then Inr user
            else Inl \<lparr>res_code = 403, res_status = False,
                      res_msg = ''Admin privileges required''\<rparr>)) \<and>
    (\<forall>e. au_is_admin user \<noteq> JBool True \<and> role_fault env = Some e \<longrightarrow>
         upload_route env authorization =
           Inl \<lparr>res_code = 500, res_status = False,
                res_msg = ''Error verifying user permissions''\<rparr>) \<and>
    (\<forall>res. upload_route env authorization = Inl res \<longrightarrow> res_code res \<noteq> 401)"
proof -
  have u: "upload_route env authorization =
      (case requireAdmin env (Some user) of Inl res \<Rightarrow> Inl res | Inr x \<Rightarrow> Inr user)"
    using a by (simp add: upload_route_def)
  have c1: "au_is_admin user = JBool True \<longrightarrow> upload_route env authorization = Inr user"
    using u by (simp add: requireAdmin_claim)
  have c2: "\<forall>r. au_is_admin user \<noteq> JBool True \<and> role_fault env = None \<and>
         filter (\<lambda>r. ur_id r = au_id user) (users env) = [r] \<longrightarrow>
         upload_route env authorization =
           (if ur_role r = Some ''admin'' then Inr user
            else Inl \<lparr>res_code = 403, res_status = False,
                      res_msg = ''Admin privileges required''\<rparr>)"
    using u by (simp add: requireAdmin_row)
  have c3: "\<forall>e. au_is_admin user \<noteq> JBool True \<and> role_fault env = Some e \<longrightarrow>
         upload_route env authorization =
           Inl \<lparr>res_code = 500, res_status = False,
                res_msg = ''Error verifying user permissions''\<rparr>"
    using u by (simp add: requireAdmin_store_error)
  have c4: "\<forall>res. upload_route env authorization = Inl res \<longrightarrow> res_code res \<noteq> 401"
  proof (intro allI impI)
    fix res assume "upload_route env authorization = Inl res"
    with u have "requireAdmin env (Some user) = Inl res"
      by (cases "requireAdmin env (Some user)") simp_all
    then show "res_code res \<noteq> 401" by (rule requireAdmin_not_401)
  qed
  from c1 c2 c3 c4 show ?thesis by (intro conjI)
qed

theorem C6_admin_gate_witness:
  "requireAuth front_door (Some ''Bearer tok-dave'') = Inr \<lparr>au_id = ''u4'', au_is_admin = JBool False\<rparr> \<and>
   upload_route front_door (Some ''Bearer tok-dave'') =
     Inl \<lparr>res_code = 403, res_status = False, res_msg = ''Admin privileges required''\<rparr> \<and>
   requireAuth front_door (Some ''Bearer tok-root'') = Inr \<lparr>au_id = ''u1'', au_is_admin = JBool True\<rparr> \<and>
   upload_route front_door (Some ''Bearer tok-root'') = Inr \<lparr>au_id = ''u1'', au_is_admin = JBool True\<rparr> \<and>
   requireAuth store_down (Some ''Bearer tok-dave'') = Inr \<lparr>au_id = ''u4'', au_is_admin = JBool False\<rparr> \<and>
   role_fault store_down = Some ''connection refused'' \<and>
   upload_route store_down (Some ''Bearer tok-dave'') =
     Inl \<lparr>res_code = 500, res_status = False, res_msg = ''Error verifying user permissions''\<rparr>"
proof -
  let ?dave = "\<lparr>au_id = ''u4'', au_is_admin = JBool False\<rparr>"
  let ?root = "\<lparr>au_id = ''u1'', au_is_admin = JBool True\<rparr>"
  have d: "requireAuth front_door (Some ''Bearer tok-dave'') = Inr ?dave"
    by (simp add: requireAuth_def front_door_def starts_with_Bearer_def bearer_token_def)
  have r: "requireAuth front_door (Some ''Bearer tok-root'') = Inr ?root"
    by (simp add: requireAuth_def front_door_def starts_with_Bearer_def bearer_token_def)
  have s: "requireAuth store_down (Some ''Bearer tok-dave'') = Inr ?dave"
    by (simp add: requireAuth_def store_down_def front_door_def starts_with_Bearer_def
        bearer_token_def)
  have dh: "au_is_admin ?dave \<noteq> JBool True \<and> role_fault front_door = None \<and>
      filter (\<lambda>r. ur_id r = au_id ?dave) (users front_door) = [\<lparr>ur_id = ''u4'', ur_role = Some ''user''\<rparr>]"
    by (simp add: front_door_def)
  have sf: "role_fault store_down = Some ''connection refused''"
    by (simp add: store_down_def)
  have sh: "au_is_admin ?dave \<noteq> JBool True \<and> role_fault store_down = Some ''connection refused''"
    using sf by simp
  have rh: "au_is_admin ?root = JBool True" by simp
  have d1: "upload_route front_door (Some ''Bearer tok-dave'') =
     Inl \<lparr>res_code = 403, res_status = False, res_msg = ''Admin privileges required''\<rparr>"
    using C6_admin_gate [OF d, THEN conjunct2, THEN conjunct1, rule_format, OF dh] by simp
  have r1: "upload_route front_door (Some ''Bearer tok-root'') = Inr ?root"
    using C6_admin_gate [OF r, THEN conjunct1, rule_format, OF rh] .
  have s1: "upload_route store_down (Some ''Bearer tok-dave'') =
     Inl \<lparr>res_code = 500, res_status = False, res_msg = ''Error verifying user permissions''\<rparr>"
    using C6_admin_gate [OF s, THEN conjunct2, THEN conjunct2, THEN conjunct1, rule_format, OF sh] .
  from d d1 r r1 s sf s1 show ?thesis by (intro conjI)
qed

section \<open>Properties of resendOtp\<close>







section \<open>Properties of updateUserProfile\<close>

lemma fold_pick:
  "fold (\<lambda>key obj. obj(key := map_of pd key)) ks m c = (if c \<in> set ks then map_of pd c else m c)"
  by (induction ks arbitrary: m) auto

lemma filteredData_frame:
  "c \<notin> set [''full_name'', ''avatar_url'', ''website'', ''updated_at''] \<Longrightarrow>
   filteredData env pd c = None"
  by (auto simp: filteredData_def fold_pick allowedFields_def)

lemma updateUserProfile_others:
  "uid \<noteq> userId \<Longrightarrow> snd (updateUserProfile env profiles userId profileData) uid = profiles uid"
  by (simp add: updateUserProfile_def Let_def split: option.splits)

lemma updateUserProfile_columns:
  assumes "c \<notin> set [''full_name'', ''avatar_url'', ''website'', ''updated_at'']"
  shows "(case snd (updateUserProfile env profiles userId profileData) userId of
            None \<Rightarrow> None | Some r \<Rightarrow> r c) =
         (case profiles userId of None \<Rightarrow> None | Some r \<Rightarrow> r c)"
  using filteredData_frame [OF assms]
  by (simp add: updateUserProfile_def Let_def map_add_def split: option.splits)

lemma updateUserProfile_exists:
  "(snd (updateUserProfile env profiles userId profileData) userId = None) =
   (profiles userId = None)"
  by (simp add: updateUserProfile_def Let_def split: option.splits)

lemma updateUserProfile_empty:
  "profileData = None \<or> profileData = Some [] \<Longrightarrow>
   \<not> p_status (fst (updateUserProfile env profiles userId profileData)) \<and>
   p_statusCode (fst (updateUserProfile env profiles userId profileData)) = Some 400 \<and>
   snd (updateUserProfile env profiles userId profileData) = profiles"
  by (auto simp: updateUserProfile_def)

text \<open>
  C10. The object \<open>updateUserProfile\<close> sends to the store has no key other than
  \<open>full_name\<close>, \<open>avatar_url\<close>, \<open>website\<close> and \<open>updated_at\<close>. Whatever \<open>profileData\<close> is, the
  rows of other users are unchanged, every other column of the user's own row is unchanged,
  and no row appears or disappears. A missing or empty \<open>profileData\<close> is answered with a
  failure of status code 400 and the table is unchanged.
\<close>

theorem C10_profile_whitelist:
  "(\<forall>c. c \<notin> set [''full_name'', ''avatar_url'', ''website'', ''updated_at''] \<longrightarrow>
        filteredData env pd c = None) \<and>
   (\<forall>uid. uid \<noteq> userId \<longrightarrow>
        snd (updateUserProfile env profiles userId profileData) uid = profiles uid) \<and>
   (\<forall>c. c \<notin> set [''full_name'', ''avatar_url'', ''website'', ''updated_at''] \<longrightarrow>
        (case snd (updateUserProfile env profiles userId profileData) userId of
           None \<Rightarrow> None | Some r \<Rightarrow> r c) =
        (case profiles userId of None \<Rightarrow> None | Some r \<Rightarrow> r c)) \<and>
   ((snd (updateUserProfile env profiles userId profileData) userId = None) =
      (profiles userId = None)) \<and>
   (profileData = None \<or> profileData = Some [] \<longrightarrow>
      \<not> p_status (fst (updateUserProfile env profiles userId profileData)) \<and>
      p_statusCode (fst (updateUserProfile env profiles userId profileData)) = Some 400 \<and>
      snd (updateUserProfile env profiles userId profileData) = profiles)"
proof (intro conjI allI impI)
  fix c :: string
  assume "c \<notin> set [''full_name'', ''avatar_url'', ''website'', ''updated_at'']"
  then show "filteredData env pd c = None" by (rule filteredData_frame)
next
  fix uid assume "uid \<noteq> userId"
  then show "snd (updateUserProfile env profiles userId profileData) uid = profiles uid"
    by (rule updateUserProfile_others)
next
  fix c :: string
  assume "c \<notin> set [''full_name'', ''avatar_url'', ''website'', ''updated_at'']"
  then show "(case snd (updateUserProfile env profiles userId profileData) userId of
           None \<Rightarrow> None | Some r \<Rightarrow> r c) =
        (case profiles userId of None \<Rightarrow> None | Some r \<Rightarrow> r c)"
    by (rule updateUserProfile_columns)
next
  show "(snd (updateUserProfile env profiles userId profileData) userId = None) =
      (profiles userId = None)"
    by (rule updateUserProfile_exists)
next
  assume e: "profileData = None \<or> profileData = Some []"
  from updateUserProfile_empty [OF e]
  show "\<not> p_status (fst (updateUserProfile env profiles userId profileData))" by blast
  from updateUserProfile_empty [OF e]
  show "p_statusCode (fst (updateUserProfile env profiles userId profileData)) = Some 400" by blast
  from updateUserProfile_empty [OF e]
  show "snd (updateUserProfile env profiles userId profileData) = profiles" by blast
qed

theorem C10_profile_whitelist_witness:
  "p_status (fst (updateUserProfile registry people ann_id (Some ann_edit))) \<and>
   (case snd (updateUserProfile registry people ann_id (Some ann_edit)) ann_id of
      None \<Rightarrow> None | Some r \<Rightarrow> r ''full_name'') = Some (JString ''Ann Lee'') \<and>
   (case snd (updateUserProfile registry people ann_id (Some ann_edit)) ann_id of
      None \<Rightarrow> None | Some r \<Rightarrow> r ''role'') = Some (JString ''user'') \<and>
   (case snd (updateUserProfile registry people ann_id (Some ann_edit)) ann_id of
      None \<Rightarrow> None | Some r \<Rightarrow> r ''is_admin'') = Some (JBool False) \<and>
   (case snd (updateUserProfile registry people ann_id (Some ann_edit)) ann_id of
      None \<Rightarrow> None | Some r \<Rightarrow> r ''id'') = Some (JString ann_id) \<and>
   p_statusCode (fst (updateUserProfile registry people ann_id (Some []))) = Some 400 \<and>
   snd (updateUserProfile registry people ann_id (Some [])) = people"
proof -
  have ok: "p_status (fst (updateUserProfile registry people ann_id (Some ann_edit)))"
    by (simp add: updateUserProfile_def Let_def registry_def people_def ann_id_def ann_edit_def)
  have fn: "(case snd (updateUserProfile registry people ann_id (Some ann_edit)) ann_id of
      None \<Rightarrow> None | Some r \<Rightarrow> r ''full_name'') = Some (JString ''Ann Lee'')"
    by (simp add: updateUserProfile_def Let_def registry_def people_def ann_id_def ann_edit_def
        filteredData_def allowedFields_def map_add_def)
  have old: "people ann_id =
      Some [''id'' \<mapsto> JString ann_id, ''full_name'' \<mapsto> JString ''Ann'',
            ''role'' \<mapsto> JString ''user'', ''is_admin'' \<mapsto> JBool False,
            ''updated_at'' \<mapsto> JString ''2025-01-01T00:00:00.000Z'']"
    by (simp add: people_def)
  note t = C10_profile_whitelist [of registry ann_edit ann_id people "Some ann_edit"]
  note cols = t [THEN conjunct2, THEN conjunct2, THEN conjunct1, rule_format]
  have role: "(case snd (updateUserProfile registry people ann_id (Some ann_edit)) ann_id of
      None \<Rightarrow> None | Some r \<Rightarrow> r ''role'') = Some (JString ''user'')"
    using cols [of "''role''"] by (simp add: old)
  have adm: "(case snd (updateUserProfile registry people ann_id (Some ann_edit)) ann_id of
      None \<Rightarrow> None | Some r \<Rightarrow> r ''is_admin'') = Some (JBool False)"
    using cols [of "''is_admin''"] by (simp add: old)
  have id: "(case snd (updateUserProfile registry people ann_id (Some ann_edit)) ann_id of
      None \<Rightarrow> None | Some r \<Rightarrow> r ''id'') = Some (JString ann_id)"
    using cols [of "''id''"] by (simp add: old)
  note e = C10_profile_whitelist [of registry ann_edit ann_id people "Some []",
      THEN conjunct2, THEN conjunct2, THEN conjunct2, THEN conjunct2, rule_format]
  have e1: "p_statusCode (fst (updateUserProfile registry people ann_id (Some []))) = Some 400"
    using e by simp
  have e2: "snd (updateUserProfile registry people ann_id (Some [])) = people"
    using e by simp
  from ok fn role adm id e1 e2 show ?thesis by (intro conjI)
qed

end
